theory Spec2Isabelle
  imports Main
begin

section \<open>Python values, exceptions and dictionaries\<close>

text \<open>
  The library is Python 2 code (\<^verbatim>\<open>iteritems\<close>). The values that flow through it are
  \<^verbatim>\<open>None\<close>, booleans, integers, byte strings, sequences, the ordered dictionaries that
  \<^verbatim>\<open>xmltodict\<close> returns, callables (functions and bound methods) and references to
  \<^verbatim>\<open>Contact\<close> objects, which are mutable and therefore live in a store.
\<close>

type_synonym addr = nat

datatype pyval =
    PNone
  | PBool bool
  | PInt int
  | PStr string
  | PList "pyval list"
  | PDict "(string \<times> pyval) list"
  | PCallable string
  | PObj addr

text \<open>Every \<^verbatim>\<open>raise\<close> of the source, and every exception its operations can raise.\<close>

datatype error =
    KeyError pyval
  | TypeError
  | ValueError string
  | AttributeError
  | ContactValidationError string
  | Exception pyval
  | LibraryError string

text \<open>Sequencing of fallible steps: the first exception ends the computation.\<close>

definition bind_err :: "error + 'a \<Rightarrow> ('a \<Rightarrow> error + 'b) \<Rightarrow> error + 'b" where
  "bind_err m f = (case m of Inl e \<Rightarrow> Inl e | Inr x \<Rightarrow> f x)"

text \<open>Python truth value testing, as used by \<^verbatim>\<open>if x\<close>, \<^verbatim>\<open>not x\<close> and \<^verbatim>\<open>x or y\<close>.\<close>

fun truthy :: "pyval \<Rightarrow> bool" where
  "truthy PNone = False"
| "truthy (PBool b) = b"
| "truthy (PInt n) = (n \<noteq> 0)"
| "truthy (PStr s) = (s \<noteq> [])"
| "truthy (PList xs) = (xs \<noteq> [])"
| "truthy (PDict kvs) = (kvs \<noteq> [])"
| "truthy (PCallable f) = True"
| "truthy (PObj a) = True"

fun callable :: "pyval \<Rightarrow> bool" where
  "callable (PCallable f) = True"
| "callable v = False"

text \<open>
  A dictionary with string keys is an association list read through \<open>map_of\<close>;
  \<^verbatim>\<open>d[k] = v\<close> is \<open>dict_set\<close>, \<^verbatim>\<open>d.update(e)\<close> is \<open>dict_update\<close>,
  \<^verbatim>\<open>d[k]\<close> is \<open>dict_item\<close> and \<^verbatim>\<open>d.get(k)\<close> is \<open>dict_get\<close>.
\<close>

type_synonym pydict = "(string \<times> pyval) list"

fun dict_set :: "pydict \<Rightarrow> string \<Rightarrow> pyval \<Rightarrow> pydict" where
  "dict_set [] k v = [(k, v)]"
| "dict_set ((k', v') # d) k v = (if k' = k then (k, v) # d else (k', v') # dict_set d k v)"

definition dict_get :: "pydict \<Rightarrow> string \<Rightarrow> pyval" where
  "dict_get d k = (case map_of d k of None \<Rightarrow> PNone | Some v \<Rightarrow> v)"

text \<open>\<^verbatim>\<open>d.update(e)\<close>: for each key of \<open>e\<close>, \<^verbatim>\<open>d[k] = e[k]\<close>.\<close>

fun dict_update_keys :: "pydict \<Rightarrow> pydict \<Rightarrow> string list \<Rightarrow> pydict" where
  "dict_update_keys d e [] = d"
| "dict_update_keys d e (k # ks) = dict_update_keys (dict_set d k (dict_get e k)) e ks"

definition dict_update :: "pydict \<Rightarrow> pydict \<Rightarrow> pydict" where
  "dict_update d e = dict_update_keys d e (map fst e)"

definition dict_item :: "pydict \<Rightarrow> string \<Rightarrow> error + pyval" where
  "dict_item d k = (case map_of d k of None \<Rightarrow> Inl (KeyError (PStr k)) | Some v \<Rightarrow> Inr v)"

definition dict_get_default :: "pydict \<Rightarrow> string \<Rightarrow> pyval \<Rightarrow> pyval" where
  "dict_get_default d k dflt = (case map_of d k of None \<Rightarrow> dflt | Some v \<Rightarrow> v)"

section \<open>Contact\<close>

record contact =
  u_prefix :: pyval
  organization_name :: pyval
  job_title :: pyval
  first_name :: pyval
  last_name :: pyval
  address1 :: pyval
  address2 :: pyval
  city :: pyval
  state_province :: pyval
  state_province_choice :: pyval
  postal_code :: pyval
  country :: pyval
  phone :: pyval
  phone_ext :: pyval
  fax :: pyval
  email_address :: pyval

text \<open>The class attribute \<^verbatim>\<open>Contact.__required_fields\<close>.\<close>

definition required_fields :: "string list" where
  "required_fields =
    [''first_name'', ''last_name'', ''address1'', ''city'', ''state_province'',
     ''country'', ''postal_code'', ''phone'', ''email_address'']"

text \<open>
  \<^verbatim>\<open>getattr(self, name)\<close>: the instance attributes set by \<^verbatim>\<open>__init__\<close>, the methods and the
  class attribute of the class body. A name the object does not have raises
  \<^verbatim>\<open>AttributeError\<close> (\<open>None\<close> here).
\<close>

definition data_fields :: "contact \<Rightarrow> pydict" where
  "data_fields c =
    [(''organization_name'', organization_name c),
     (''job_title'', job_title c),
     (''first_name'', first_name c),
     (''last_name'', last_name c),
     (''address1'', address1 c),
     (''address2'', address2 c),
     (''city'', city c),
     (''state_province'', state_province c),
     (''state_province_choice'', state_province_choice c),
     (''postal_code'', postal_code c),
     (''country'', country c),
     (''phone'', phone c),
     (''phone_ext'', phone_ext c),
     (''fax'', fax c),
     (''email_address'', email_address c)]"

definition instance_dict :: "contact \<Rightarrow> pydict" where
  "instance_dict c = (''_prefix'', u_prefix c) # data_fields c"

definition class_dict :: pydict where
  "class_dict =
    [(''_Contact__required_fields'', PList (map PStr required_fields)),
     (''__init__'', PCallable ''__init__''),
     (''validate'', PCallable ''validate''),
     (''_validate_phone_number'', PCallable ''_validate_phone_number''),
     (''_camelize'', PCallable ''_camelize''),
     (''as_dict'', PCallable ''as_dict'')]"

definition getattr :: "contact \<Rightarrow> string \<Rightarrow> pyval option" where
  "getattr c name =
    (case map_of (instance_dict c) name of
       Some v \<Rightarrow> Some v
     | None \<Rightarrow> map_of class_dict name)"

subsection \<open>The phone number pattern\<close>

text \<open>
  \<^verbatim>\<open>re.compile('\+\d{3}\.\d{7}')\<close> as a sequence of character classes, and
  \<^verbatim>\<open>pattern.match(s)\<close>, which matches at the start of \<open>s\<close> and does not look at what follows
  the match. On a byte string \<^verbatim>\<open>\d\<close> is an ASCII digit.
\<close>

datatype char_class = Lit char | Digit

definition is_digit :: "char \<Rightarrow> bool" where
  "is_digit c = (48 \<le> (of_char c :: nat) \<and> (of_char c :: nat) \<le> 57)"

fun class_ok :: "char_class \<Rightarrow> char \<Rightarrow> bool" where
  "class_ok (Lit l) c = (c = l)"
| "class_ok Digit c = is_digit c"

fun re_match :: "char_class list \<Rightarrow> string \<Rightarrow> bool" where
  "re_match [] s = True"
| "re_match (p # ps) [] = False"
| "re_match (p # ps) (c # s) = (class_ok p c \<and> re_match ps s)"

definition phone_regex :: "char_class list" where
  "phone_regex = [Lit (CHR ''+'')] @ replicate 3 Digit @ [Lit (CHR ''.'')] @ replicate 7 Digit"

text \<open>\<^verbatim>\<open>_validate_phone_number\<close>: \<^verbatim>\<open>match\<close> on anything but a string raises \<^verbatim>\<open>TypeError\<close>.\<close>

fun validate_phone_number :: "pyval \<Rightarrow> error + bool" where
  "validate_phone_number (PStr s) = Inr (re_match phone_regex s)"
| "validate_phone_number v = Inl TypeError"

subsection \<open>Validation and construction\<close>

text \<open>The loop of \<^verbatim>\<open>validate\<close> over the required fields, in their order.\<close>

fun check_required :: "contact \<Rightarrow> string list \<Rightarrow> error + unit" where
  "check_required c [] = Inr ()"
| "check_required c (field # rest) =
    (case getattr c field of
       None \<Rightarrow> Inl AttributeError
     | Some v \<Rightarrow>
         if \<not> truthy v then Inl (ContactValidationError (field @ '' is required''))
         else check_required c rest)"

definition validate :: "contact \<Rightarrow> error + unit" where
  "validate c =
    bind_err (check_required c required_fields) (\<lambda>_.
    bind_err (validate_phone_number (phone c)) (\<lambda>phone_ok.
      if \<not> phone_ok then Inl (ContactValidationError ''phone is not in valid format'')
      else if truthy (fax c) then
        bind_err (validate_phone_number (fax c)) (\<lambda>fax_ok.
          if \<not> fax_ok then Inl (ContactValidationError ''fax is not in valid format'')
          else Inr ())
      else Inr ()))"

text \<open>
  The assignments of \<^verbatim>\<open>__init__\<close>, in the order of the source: \<^verbatim>\<open>kwargs.get\<close> for the
  optional items, \<^verbatim>\<open>kwargs[...]\<close> (which raises \<^verbatim>\<open>KeyError\<close>) for the required ones, and
  \<^verbatim>\<open>kwargs.get('email') or kwargs['email_address']\<close> for the e-mail address.
\<close>

definition assign_fields :: "pyval \<Rightarrow> pydict \<Rightarrow> error + contact" where
  "assign_fields prefix kwargs =
    bind_err (dict_item kwargs ''first_name'') (\<lambda>v_first_name.
    bind_err (dict_item kwargs ''last_name'') (\<lambda>v_last_name.
    bind_err (dict_item kwargs ''address1'') (\<lambda>v_address1.
    bind_err (dict_item kwargs ''city'') (\<lambda>v_city.
    bind_err (dict_item kwargs ''state_province'') (\<lambda>v_state_province.
    bind_err (dict_item kwargs ''postal_code'') (\<lambda>v_postal_code.
    bind_err (dict_item kwargs ''country'') (\<lambda>v_country.
    bind_err (dict_item kwargs ''phone'') (\<lambda>v_phone.
    bind_err (if truthy (dict_get kwargs ''email'') then Inr (dict_get kwargs ''email'')
              else dict_item kwargs ''email_address'') (\<lambda>v_email.
    Inr \<lparr> u_prefix = prefix,
          organization_name = dict_get kwargs ''organization_name'',
          job_title = dict_get kwargs ''job_title'',
          first_name = v_first_name,
          last_name = v_last_name,
          address1 = v_address1,
          address2 = dict_get kwargs ''address2'',
          city = v_city,
          state_province = v_state_province,
          state_province_choice = dict_get kwargs ''state_province_choice'',
          postal_code = v_postal_code,
          country = v_country,
          phone = v_phone,
          phone_ext = dict_get kwargs ''phone_ext'',
          fax = dict_get kwargs ''fax'',
          email_address = v_email \<rparr>)))))))))"

definition Contact_init :: "pyval \<Rightarrow> pydict \<Rightarrow> error + contact" where
  "Contact_init prefix kwargs =
    bind_err (assign_fields prefix kwargs) (\<lambda>c.
    bind_err (validate c) (\<lambda>_. Inr c))"

subsection \<open>Field names on the wire\<close>

text \<open>
  \<^verbatim>\<open>str.title\<close>, \<^verbatim>\<open>str.upper\<close> and \<^verbatim>\<open>str.startswith('_')\<close> on byte strings: a cased
  character is an ASCII letter; \<^verbatim>\<open>title\<close> puts a letter in upper case when the character
  before it is not a letter, and in lower case otherwise.
\<close>

definition is_lower :: "char \<Rightarrow> bool" where
  "is_lower c = (97 \<le> (of_char c :: nat) \<and> (of_char c :: nat) \<le> 122)"

definition is_upper :: "char \<Rightarrow> bool" where
  "is_upper c = (65 \<le> (of_char c :: nat) \<and> (of_char c :: nat) \<le> 90)"

definition to_upper :: "char \<Rightarrow> char" where
  "to_upper c = (if is_lower c then char_of ((of_char c :: nat) - 32) else c)"

definition to_lower :: "char \<Rightarrow> char" where
  "to_lower c = (if is_upper c then char_of ((of_char c :: nat) + 32) else c)"

definition upper :: "string \<Rightarrow> string" where
  "upper s = map to_upper s"

fun title_from :: "bool \<Rightarrow> string \<Rightarrow> string" where
  "title_from previous_is_cased [] = []"
| "title_from previous_is_cased (c # s) =
    (if is_lower c then
       (if \<not> previous_is_cased then to_upper c else c) # title_from True s
     else if is_upper c then
       (if previous_is_cased then to_lower c else c) # title_from True s
     else c # title_from False s)"

definition title :: "string \<Rightarrow> string" where
  "title s = title_from False s"

fun startswith_underscore :: "string \<Rightarrow> bool" where
  "startswith_underscore [] = False"
| "startswith_underscore (c # s) = (c = CHR ''_'')"

text \<open>
  \<^verbatim>\<open>re.sub(r'[A-Za-z0-9]_[A-Za-z0-9]', underscore_to_camel, s)\<close>: the leftmost match is
  replaced by its first character and its third in upper case, and the search goes on
  after the match.
\<close>

definition is_alnum :: "char \<Rightarrow> bool" where
  "is_alnum c = (is_upper c \<or> is_lower c \<or> is_digit c)"

fun underscore_to_camel :: "string \<Rightarrow> string" where
  "underscore_to_camel (a # b # c # s) =
    (if is_alnum a \<and> b = CHR ''_'' \<and> is_alnum c
     then a # to_upper c # underscore_to_camel s
     else a # underscore_to_camel (b # c # s))"
| "underscore_to_camel s = s"

definition camelize :: "string \<Rightarrow> string" where
  "camelize s = underscore_to_camel (title s)"

text \<open>
  \<^verbatim>\<open>dir(self)\<close>: the names of the instance and of the class body, sorted. The names that
  every object inherits all begin with two underscores, and \<^verbatim>\<open>as_dict\<close> skips them by
  the same test as the underscore names listed here.
\<close>

definition dir_contact :: "string list" where
  "dir_contact =
    [''_Contact__required_fields'', ''__init__'', ''_camelize'', ''_prefix'',
     ''_validate_phone_number'', ''address1'', ''address2'', ''as_dict'', ''city'',
     ''country'', ''email_address'', ''fax'', ''first_name'', ''job_title'', ''last_name'',
     ''organization_name'', ''phone'', ''phone_ext'', ''postal_code'', ''state_province'',
     ''state_province_choice'', ''validate'']"

text \<open>\<^verbatim>\<open>self._prefix + name\<close>: only a string can be concatenated with a string.\<close>

fun str_add :: "pyval \<Rightarrow> string \<Rightarrow> error + string" where
  "str_add (PStr p) s = Inr (p @ s)"
| "str_add v s = Inl TypeError"

fun as_dict_loop :: "contact \<Rightarrow> string list \<Rightarrow> pydict \<Rightarrow> error + pydict" where
  "as_dict_loop c [] ret = Inr ret"
| "as_dict_loop c (attr # attrs) ret =
    (case getattr c attr of
       None \<Rightarrow> Inl AttributeError
     | Some v \<Rightarrow>
         if callable v \<or> startswith_underscore attr \<or> v = PNone
         then as_dict_loop c attrs ret
         else bind_err (str_add (u_prefix c) (camelize attr)) (\<lambda>key.
              as_dict_loop c attrs (dict_set ret key v)))"

definition as_dict :: "contact \<Rightarrow> error + pydict" where
  "as_dict c = as_dict_loop c dir_contact []"

section \<open>The store, the network and the libraries\<close>

text \<open>
  \<^verbatim>\<open>Contact\<close> objects and the dictionary \<^verbatim>\<open>base_opts\<close> are mutable and may be shared, so
  they live in a store indexed by addresses; \<open>next_addr\<close> is the first address not yet
  allocated. A \<open>PObj\<close> whose address holds no contact is an object of another class.
  \<open>sent\<close> records the HTTP requests issued so far, oldest first.
\<close>

datatype http_call = Get string | Post string pydict

record world =
  contacts :: "addr \<Rightarrow> contact option"
  dicts :: "addr \<Rightarrow> pydict"
  next_addr :: addr
  sent :: "http_call list"

datatype response = Response (response_text: string)

record date =
  year :: int
  month :: int
  day :: int

text \<open>
  What the program calls and does not define: \<^verbatim>\<open>requests.post\<close> and \<^verbatim>\<open>requests.get\<close>
  (the answer of the remote side, or the exception of the transport),
  \<^verbatim>\<open>xmltodict.parse\<close>, \<^verbatim>\<open>datetime.strptime(v, format).date()\<close> and \<^verbatim>\<open>int\<close>. They are
  parameters of the model.
\<close>

record env =
  http_post :: "string \<Rightarrow> pydict \<Rightarrow> error + response"
  http_get :: "string \<Rightarrow> error + response"
  xml_parse :: "string \<Rightarrow> error + pyval"
  strptime_date :: "pyval \<Rightarrow> string \<Rightarrow> error + date"
  py_int :: "pyval \<Rightarrow> error + int"

text \<open>A computation that reads and changes the world and returns or raises.\<close>

type_synonym 'a io = "world \<Rightarrow> (error + 'a) \<times> world"

definition return_io :: "'a \<Rightarrow> 'a io" where
  "return_io x = (\<lambda>w. (Inr x, w))"

definition raise_io :: "error \<Rightarrow> 'a io" where
  "raise_io e = (\<lambda>w. (Inl e, w))"

definition bind_io :: "'a io \<Rightarrow> ('a \<Rightarrow> 'b io) \<Rightarrow> 'b io" where
  "bind_io m f = (\<lambda>w. case m w of (Inl e, w') \<Rightarrow> (Inl e, w') | (Inr x, w') \<Rightarrow> f x w')"

definition lift_io :: "error + 'a \<Rightarrow> 'a io" where
  "lift_io r = (\<lambda>w. (r, w))"

section \<open>NamecheapClient\<close>

record client =
  base_opts :: addr
  base_url :: string

text \<open>
  \<^verbatim>\<open>response.text\<close> is a unicode string, and \<^verbatim>\<open>strip()\<close> removes from both ends the
  characters for which \<^verbatim>\<open>unicode.isspace\<close> holds. Among the code points a \<open>char\<close> holds
  these are 9 to 13, 28 to 32, 133 and 160.
\<close>

definition is_space :: "char \<Rightarrow> bool" where
  "is_space c =
    ((9 \<le> (of_char c :: nat) \<and> (of_char c :: nat) \<le> 13) \<or>
     (28 \<le> (of_char c :: nat) \<and> (of_char c :: nat) \<le> 32) \<or>
     (of_char c :: nat) = 133 \<or> (of_char c :: nat) = 160)"

definition strip :: "string \<Rightarrow> string" where
  "strip s = rev (dropWhile is_space (rev (dropWhile is_space s)))"

definition alloc_dict :: "pydict \<Rightarrow> addr io" where
  "alloc_dict d = (\<lambda>w.
     (Inr (next_addr w),
      w\<lparr>dicts := (dicts w)(next_addr w := d), next_addr := Suc (next_addr w)\<rparr>))"

text \<open>
  \<^verbatim>\<open>NamecheapClient.__init__\<close>. The default of \<^verbatim>\<open>username\<close> and \<^verbatim>\<open>client_ip\<close> is
  \<^verbatim>\<open>None\<close>, the default of \<^verbatim>\<open>environment\<close> is the production URL.
\<close>

definition NamecheapClient_init ::
  "env \<Rightarrow> pyval \<Rightarrow> pyval \<Rightarrow> pyval \<Rightarrow> pyval \<Rightarrow> string \<Rightarrow> client io" where
  "NamecheapClient_init ev api_user api_key username client_ip environment =
    bind_io
      (if \<not> truthy client_ip then
         (\<lambda>w. (case http_get ev ''http://icanhazip.com'' of
                  Inl e \<Rightarrow> Inl e
                | Inr r \<Rightarrow> Inr (PStr (strip (response_text r))),
                w\<lparr>sent := sent w @ [Get ''http://icanhazip.com'']\<rparr>))
       else return_io client_ip) (\<lambda>client_ip.
    bind_io
      (alloc_dict
        [(''ApiUser'', api_user),
         (''ApiKey'', api_key),
         (''UserName'', if \<not> truthy username then api_user else username),
         (''ClientIp'', client_ip)]) (\<lambda>opts.
    return_io \<lparr>base_opts = opts, base_url = environment\<rparr>))"

text \<open>
  \<^verbatim>\<open>request\<close>: \<^verbatim>\<open>copy.copy\<close> allocates a new dictionary with the items of
  \<^verbatim>\<open>self.base_opts\<close>, \<^verbatim>\<open>update\<close> changes that new dictionary in place, and
  \<^verbatim>\<open>requests.post\<close> sends it.
\<close>

definition copy_dict :: "addr \<Rightarrow> addr io" where
  "copy_dict a = (\<lambda>w. alloc_dict (dicts w a) w)"

definition update_dict :: "addr \<Rightarrow> pydict \<Rightarrow> unit io" where
  "update_dict a e = (\<lambda>w. (Inr (), w\<lparr>dicts := (dicts w)(a := dict_update (dicts w a) e)\<rparr>))"

definition requests_post :: "env \<Rightarrow> string \<Rightarrow> addr \<Rightarrow> response io" where
  "requests_post ev url a = (\<lambda>w.
     (http_post ev url (dicts w a), w\<lparr>sent := sent w @ [Post url (dicts w a)]\<rparr>))"

definition request :: "env \<Rightarrow> client \<Rightarrow> pydict \<Rightarrow> response io" where
  "request ev self kwargs =
    bind_io (copy_dict (base_opts self)) (\<lambda>opts.
    bind_io (update_dict opts kwargs) (\<lambda>_.
    requests_post ev (base_url self) opts))"

subsection \<open>domains\_create\<close>

text \<open>
  Attribute assignment, \<^verbatim>\<open>copy.copy\<close> and the method call \<^verbatim>\<open>as_dict()\<close> on a value. Only
  a \<^verbatim>\<open>Contact\<close> has the method \<^verbatim>\<open>as_dict\<close>; on any other value the source raises
  \<^verbatim>\<open>AttributeError\<close>, at that call at the latest.
\<close>

definition set_prefix :: "pyval \<Rightarrow> string \<Rightarrow> unit io" where
  "set_prefix obj p = (\<lambda>w.
     case obj of
       PObj a \<Rightarrow>
         (case contacts w a of
            Some c \<Rightarrow> (Inr (), w\<lparr>contacts := (contacts w)(a \<mapsto> c\<lparr>u_prefix := PStr p\<rparr>)\<rparr>)
          | None \<Rightarrow> (Inl AttributeError, w))
     | _ \<Rightarrow> (Inl AttributeError, w))"

definition copy_contact :: "pyval \<Rightarrow> pyval io" where
  "copy_contact obj = (\<lambda>w.
     case obj of
       PObj a \<Rightarrow>
         (case contacts w a of
            Some c \<Rightarrow>
              (Inr (PObj (next_addr w)),
               w\<lparr>contacts := (contacts w)(next_addr w \<mapsto> c), next_addr := Suc (next_addr w)\<rparr>)
          | None \<Rightarrow> (Inl AttributeError, w))
     | _ \<Rightarrow> (Inl AttributeError, w))"

definition call_as_dict :: "pyval \<Rightarrow> pydict io" where
  "call_as_dict obj = (\<lambda>w.
     case obj of
       PObj a \<Rightarrow>
         (case contacts w a of
            Some c \<Rightarrow> (as_dict c, w)
          | None \<Rightarrow> (Inl AttributeError, w))
     | _ \<Rightarrow> (Inl AttributeError, w))"

text \<open>
  One of the three blocks for \<^verbatim>\<open>admin\<close>, \<^verbatim>\<open>tech\<close> and \<^verbatim>\<open>aux_billing\<close>: the contact
  given by the caller, or else a copy of the registrant under the prefix of the role.
\<close>

definition role_contact :: "pydict \<Rightarrow> string \<Rightarrow> string \<Rightarrow> pyval \<Rightarrow> pyval io" where
  "role_contact kwargs role p registrant =
    (if truthy (dict_get kwargs role) then return_io (dict_get kwargs role)
     else bind_io (copy_contact registrant) (\<lambda>c.
          bind_io (set_prefix c p) (\<lambda>_.
          return_io c)))"

text \<open>The statements of \<^verbatim>\<open>domains_create\<close> up to the request: they build \<^verbatim>\<open>get_opts\<close>.\<close>

definition domains_create_opts :: "pyval \<Rightarrow> pydict \<Rightarrow> pydict io" where
  "domains_create_opts domain_name kwargs =
    bind_io (lift_io (dict_item kwargs ''registrant'')) (\<lambda>registrant.
    bind_io (set_prefix registrant ''Registrant'') (\<lambda>_.
    bind_io (role_contact kwargs ''admin'' ''Admin'' registrant) (\<lambda>admin.
    bind_io (role_contact kwargs ''tech'' ''Tech'' registrant) (\<lambda>tech.
    bind_io (role_contact kwargs ''aux_billing'' ''AuxBilling'' registrant) (\<lambda>aux_billing.
    bind_io (call_as_dict registrant) (\<lambda>registrant_dict.
    bind_io (call_as_dict admin) (\<lambda>admin_dict.
    bind_io (call_as_dict tech) (\<lambda>tech_dict.
    bind_io (call_as_dict aux_billing) (\<lambda>aux_billing_dict.
    return_io
      (dict_update (dict_update (dict_update (dict_update
         [(''Command'', PStr ''namecheap.domains.create''),
          (''DomainName'', domain_name),
          (''Years'', dict_get_default kwargs ''years'' (PInt 1))]
         registrant_dict) admin_dict) tech_dict) aux_billing_dict))))))))))"

definition domains_create :: "env \<Rightarrow> client \<Rightarrow> pyval \<Rightarrow> pydict \<Rightarrow> response io" where
  "domains_create ev self domain_name kwargs =
    bind_io (domains_create_opts domain_name kwargs) (\<lambda>get_opts.
    request ev self get_opts)"

subsection \<open>common\_get\_list and its callers\<close>

definition LIST_TYPES :: pydict where
  "LIST_TYPES =
    [(''all'', PStr ''ALL''),
     (''expiring'', PStr ''EXPIRING''),
     (''expired'', PStr ''EXPIRED'')]"

definition SORT_TYPES :: pydict where
  "SORT_TYPES =
    [(''name'', PStr ''NAME''),
     (''-name'', PStr ''NAME_DESC''),
     (''expire_date'', PStr ''EXPIREDATE''),
     (''-expire_date'', PStr ''EXPIREDATE_DESC''),
     (''create_date'', PStr ''CREATEDATE''),
     (''-create_date'', PStr ''CREATEDATE_DESC'')]"

text \<open>
  \<^verbatim>\<open>TABLE[key]\<close> for a dictionary with string keys and any key: a list or a dictionary
  is unhashable (\<^verbatim>\<open>TypeError\<close>), any other value that is not a key raises
  \<^verbatim>\<open>KeyError\<close>. \<open>except_KeyError\<close> is \<^verbatim>\<open>try: ... except KeyError: raise e\<close>.
\<close>

fun table_item :: "pydict \<Rightarrow> pyval \<Rightarrow> error + pyval" where
  "table_item t (PStr s) = dict_item t s"
| "table_item t (PList xs) = Inl TypeError"
| "table_item t (PDict d) = Inl TypeError"
| "table_item t v = Inl (KeyError v)"

fun except_KeyError :: "error + 'a \<Rightarrow> error \<Rightarrow> error + 'a" where
  "except_KeyError (Inl (KeyError k)) e = Inl e"
| "except_KeyError r e = r"

definition common_get_list_opts ::
  "pyval \<Rightarrow> pyval \<Rightarrow> pyval \<Rightarrow> pyval \<Rightarrow> pyval \<Rightarrow> pyval \<Rightarrow> error + pydict" where
  "common_get_list_opts command list_type sort_by page_size page search_term =
    bind_err (except_KeyError (table_item LIST_TYPES list_type)
                (ValueError ''Invalid list_type.'')) (\<lambda>list_type.
    bind_err (except_KeyError (table_item SORT_TYPES sort_by)
                (ValueError ''Invalid sort_by'')) (\<lambda>sort_by.
    Inr (let get_opts = [(''Command'', command), (''ListType'', list_type),
                         (''SortBy'', sort_by), (''Page'', page), (''PageSize'', page_size)]
         in if truthy search_term then dict_set get_opts ''SearchTerm'' search_term
            else get_opts)))"

definition common_get_list ::
  "env \<Rightarrow> client \<Rightarrow> pyval \<Rightarrow> pyval \<Rightarrow> pyval \<Rightarrow> pyval \<Rightarrow> pyval \<Rightarrow> pyval \<Rightarrow> response io" where
  "common_get_list ev self command list_type sort_by page_size page search_term =
    bind_io (lift_io (common_get_list_opts command list_type sort_by page_size page search_term))
      (\<lambda>get_opts. request ev self get_opts)"

text \<open>
  The call \<^verbatim>\<open>self.common_get_list(command, **kwargs)\<close>: a keyword that is not a parameter
  of \<^verbatim>\<open>common_get_list\<close> (or names \<^verbatim>\<open>command\<close> again) raises \<^verbatim>\<open>TypeError\<close>; a parameter
  that is not given takes its default.
\<close>

definition common_get_list_kw :: "env \<Rightarrow> client \<Rightarrow> pyval \<Rightarrow> pydict \<Rightarrow> response io" where
  "common_get_list_kw ev self command kwargs =
    (if list_ex (\<lambda>k. k \<notin> set [''list_type'', ''sort_by'', ''page_size'', ''page'', ''search_term''])
          (map fst kwargs)
     then raise_io TypeError
     else common_get_list ev self command
            (dict_get_default kwargs ''list_type'' (PStr ''all''))
            (dict_get_default kwargs ''sort_by'' (PStr ''name''))
            (dict_get_default kwargs ''page_size'' (PInt 10))
            (dict_get_default kwargs ''page'' (PInt 1))
            (dict_get_default kwargs ''search_term'' PNone))"

text \<open>
  Subscription \<^verbatim>\<open>v[k]\<close> with a string key, iteration \<^verbatim>\<open>for x in v\<close> and
  \<^verbatim>\<open>v.iteritems()\<close> on a value of the parsed document.
\<close>

fun subscript :: "pyval \<Rightarrow> string \<Rightarrow> error + pyval" where
  "subscript (PDict d) k = dict_item d k"
| "subscript v k = Inl TypeError"

fun iterate :: "pyval \<Rightarrow> error + pyval list" where
  "iterate (PList xs) = Inr xs"
| "iterate (PDict d) = Inr (map (\<lambda>kv. PStr (fst kv)) d)"
| "iterate (PStr s) = Inr (map (\<lambda>c. PStr [c]) s)"
| "iterate v = Inl TypeError"

fun iteritems :: "pyval \<Rightarrow> error + (string \<times> pyval) list" where
  "iteritems (PDict d) = Inr d"
| "iteritems v = Inl AttributeError"

text \<open>The check of the response that \<^verbatim>\<open>domains_get_list\<close> and \<^verbatim>\<open>domains_dns_set_custom\<close> share.\<close>

definition check_errors :: "pyval \<Rightarrow> error + unit" where
  "check_errors doc =
    bind_err (subscript doc ''ApiResponse'') (\<lambda>api_response.
    bind_err (subscript api_response ''Errors'') (\<lambda>errors.
    if truthy errors then Inl (Exception errors) else Inr ()))"

subsection \<open>Domain\<close>

record domain =
  client :: client
  original_dict :: pydict
  auto_renew :: pyval
  created :: date
  expires :: date
  domain_id :: int
  is_expired :: bool
  is_locked :: bool
  name :: pyval
  user :: pyval
  whois_guard :: pyval

definition Domain_init :: "env \<Rightarrow> client \<Rightarrow> pydict \<Rightarrow> error + domain" where
  "Domain_init ev cl kwargs =
    bind_err (strptime_date ev (dict_get kwargs ''Created'') ''%m/%d/%Y'') (\<lambda>v_created.
    bind_err (strptime_date ev (dict_get kwargs ''Expires'') ''%m/%d/%Y'') (\<lambda>v_expires.
    bind_err (py_int ev (dict_get kwargs ''ID'')) (\<lambda>v_id.
    Inr \<lparr> client = cl,
          original_dict = kwargs,
          auto_renew = dict_get kwargs ''AutoRenew'',
          created = v_created,
          expires = v_expires,
          domain_id = v_id,
          is_expired = (dict_get kwargs ''IsExpired'' = PStr ''true''),
          is_locked = (dict_get kwargs ''IsLocked'' = PStr ''true''),
          name = dict_get kwargs ''Name'',
          user = dict_get kwargs ''User'',
          whois_guard = dict_get kwargs ''WhoisGuard'' \<rparr>)))"

text \<open>
  \<^verbatim>\<open>{k[1:]: v for k, v in domain.iteritems()}\<close>, and the call
  \<^verbatim>\<open>Domain(self, **d)\<close>, in which a keyword \<^verbatim>\<open>client\<close> or \<^verbatim>\<open>self\<close> would name a positional
  parameter a second time.
\<close>

fun strip_keys :: "pydict \<Rightarrow> (string \<times> pyval) list \<Rightarrow> pydict" where
  "strip_keys d [] = d"
| "strip_keys d ((k, v) # kvs) = strip_keys (dict_set d (drop 1 k) v) kvs"

definition new_Domain :: "env \<Rightarrow> client \<Rightarrow> pydict \<Rightarrow> error + domain" where
  "new_Domain ev cl d =
    (if map_of d ''client'' \<noteq> None \<or> map_of d ''self'' \<noteq> None then Inl TypeError
     else Domain_init ev cl d)"

fun build_domains :: "env \<Rightarrow> client \<Rightarrow> pyval list \<Rightarrow> error + domain list" where
  "build_domains ev cl [] = Inr []"
| "build_domains ev cl (d # ds) =
    bind_err (iteritems d) (\<lambda>kvs.
    bind_err (new_Domain ev cl (strip_keys [] kvs)) (\<lambda>x.
    bind_err (build_domains ev cl ds) (\<lambda>xs.
    Inr (x # xs))))"

text \<open>
  The statements of \<^verbatim>\<open>domains_get_list\<close> after the document has been parsed: the check
  of the errors, then the construction of the result.
\<close>

definition domains_from_doc :: "env \<Rightarrow> client \<Rightarrow> pyval \<Rightarrow> error + domain list" where
  "domains_from_doc ev self doc =
    bind_err (subscript doc ''ApiResponse'') (\<lambda>api_response.
    bind_err (subscript api_response ''CommandResponse'') (\<lambda>command_response.
    bind_err (subscript command_response ''DomainGetListResult'') (\<lambda>result.
    bind_err (subscript result ''Domain'') (\<lambda>domains.
    bind_err (iterate domains) (\<lambda>ds.
    build_domains ev self ds)))))"

definition domains_of_doc :: "env \<Rightarrow> client \<Rightarrow> pyval \<Rightarrow> error + domain list" where
  "domains_of_doc ev self doc =
    bind_err (check_errors doc) (\<lambda>_. domains_from_doc ev self doc)"

definition domains_get_list :: "env \<Rightarrow> client \<Rightarrow> pydict \<Rightarrow> domain list io" where
  "domains_get_list ev self kwargs =
    bind_io (common_get_list_kw ev self (PStr ''namecheap.domains.getList'') kwargs) (\<lambda>response.
    lift_io (bind_err (xml_parse ev (response_text response)) (\<lambda>doc.
             domains_of_doc ev self doc)))"

subsection \<open>domains\_dns\_set\_custom and ssl\_get\_list\<close>

fun upper_all :: "pyval list \<Rightarrow> error + string list" where
  "upper_all [] = Inr []"
| "upper_all (PStr s # nss) = bind_err (upper_all nss) (\<lambda>r. Inr (upper s # r))"
| "upper_all (v # nss) = Inl AttributeError"

fun join :: "string \<Rightarrow> string list \<Rightarrow> string" where
  "join sep [] = []"
| "join sep [x] = x"
| "join sep (x # y # r) = x @ sep @ join sep (y # r)"

definition domains_dns_set_custom_opts :: "pyval \<Rightarrow> pyval \<Rightarrow> pyval \<Rightarrow> error + pydict" where
  "domains_dns_set_custom_opts sld tld nameservers =
    bind_err (iterate nameservers) (\<lambda>nss.
    bind_err (upper_all nss) (\<lambda>uppers.
    Inr (dict_set [(''Command'', PStr ''namecheap.domains.dns.setCustom''),
                   (''SLD'', sld), (''TLD'', tld)]
           ''Nameservers'' (PStr (join '','' uppers)))))"

definition domains_dns_set_custom ::
  "env \<Rightarrow> client \<Rightarrow> pyval \<Rightarrow> pyval \<Rightarrow> pyval \<Rightarrow> response io" where
  "domains_dns_set_custom ev self sld tld nameservers =
    bind_io (lift_io (domains_dns_set_custom_opts sld tld nameservers)) (\<lambda>get_opts.
    bind_io (request ev self get_opts) (\<lambda>response.
    lift_io (bind_err (xml_parse ev (response_text response)) (\<lambda>doc.
             bind_err (check_errors doc) (\<lambda>_.
             Inr response)))))"

text \<open>
  \<^verbatim>\<open>ssl_get_list\<close> ends at its first \<^verbatim>\<open>return response\<close>; the statements the source has
  after it are never executed and have no counterpart here.
\<close>

definition ssl_get_list :: "env \<Rightarrow> client \<Rightarrow> pydict \<Rightarrow> response io" where
  "ssl_get_list ev self kwargs =
    common_get_list_kw ev self (PStr ''namecheap.ssl.getList'') kwargs"

subsection \<open>Notions used to state the properties of construction\<close>

text \<open>
  The order in which \<^verbatim>\<open>__init__\<close> reads the required items from \<^verbatim>\<open>kwargs\<close> (it differs
  from the order of \<open>required_fields\<close> in \<^verbatim>\<open>postal_code\<close> and \<^verbatim>\<open>country\<close>).
\<close>

definition assignment_order :: "string list" where
  "assignment_order =
    [''first_name'', ''last_name'', ''address1'', ''city'', ''state_province'',
     ''postal_code'', ''country'', ''phone'', ''email_address'']"

text \<open>
  What the caller supplied for a required field: the item of that name, except that a
  non-empty \<^verbatim>\<open>email\<close> item stands for \<^verbatim>\<open>email_address\<close>.
\<close>

definition supplied :: "pydict \<Rightarrow> string \<Rightarrow> pyval option" where
  "supplied kwargs field =
    (if field = ''email_address'' \<and> truthy (dict_get kwargs ''email'')
     then Some (dict_get kwargs ''email'') else map_of kwargs field)"

definition empty_field :: "pydict \<Rightarrow> string \<Rightarrow> bool" where
  "empty_field kwargs field =
    (case supplied kwargs field of None \<Rightarrow> False | Some v \<Rightarrow> \<not> truthy v)"

definition nonempty_field :: "pydict \<Rightarrow> string \<Rightarrow> bool" where
  "nonempty_field kwargs field =
    (case supplied kwargs field of None \<Rightarrow> False | Some v \<Rightarrow> truthy v)"

text \<open>
  The format as the specification words it: a plus sign, three digits, a dot and seven
  digits, and nothing else.
\<close>

definition spec_phone_format :: "string \<Rightarrow> bool" where
  "spec_phone_format s =
    (length s = 12 \<and> s ! 0 = CHR ''+'' \<and> list_all is_digit (take 3 (drop 1 s)) \<and>
     s ! 4 = CHR ''.'' \<and> list_all is_digit (drop 5 s))"

text \<open>A complete set of constructor arguments, used in the examples.\<close>

definition john_doe :: pydict where
  "john_doe =
    [(''first_name'', PStr ''John''), (''last_name'', PStr ''Doe''),
     (''address1'', PStr ''1 Main St''), (''city'', PStr ''Provo''),
     (''state_province'', PStr ''UT''), (''postal_code'', PStr ''84601''),
     (''country'', PStr ''US''), (''phone'', PStr ''+001.8015551''),
     (''email_address'', PStr ''john@example.com'')]"

definition john_doe_contact :: "pyval \<Rightarrow> contact" where
  "john_doe_contact prefix =
    \<lparr> u_prefix = prefix, organization_name = PNone, job_title = PNone,
      first_name = PStr ''John'', last_name = PStr ''Doe'',
      address1 = PStr ''1 Main St'', address2 = PNone, city = PStr ''Provo'',
      state_province = PStr ''UT'', state_province_choice = PNone,
      postal_code = PStr ''84601'', country = PStr ''US'',
      phone = PStr ''+001.8015551'', phone_ext = PNone, fax = PNone,
      email_address = PStr ''john@example.com'' \<rparr>"

subsection \<open>The wire names as the specification words them\<close>

text \<open>
  The CamelCase form of a snake\_case name: the words between the underscores, each with
  its first letter in upper case, written one after the other. The map that the
  specification ascribes to \<^verbatim>\<open>as_dict\<close> has one entry for each attribute of the
  instance that is not \<^verbatim>\<open>None\<close>, does not begin with an underscore and is not callable.
\<close>

fun split_on :: "char \<Rightarrow> string \<Rightarrow> string list" where
  "split_on sep [] = [[]]"
| "split_on sep (c # s) =
    (if c = sep then [] # split_on sep s
     else (case split_on sep s of [] \<Rightarrow> [[c]] | w # ws \<Rightarrow> (c # w) # ws))"

fun capitalize :: "string \<Rightarrow> string" where
  "capitalize [] = []"
| "capitalize (c # s) = to_upper c # s"

definition spec_camel_case :: "string \<Rightarrow> string" where
  "spec_camel_case s = concat (map capitalize (split_on (CHR ''_'') s))"

definition spec_as_dict :: "string \<Rightarrow> contact \<Rightarrow> pydict" where
  "spec_as_dict p c =
    map (\<lambda>(n, v). (p @ spec_camel_case n, v))
      (filter (\<lambda>(n, v). v \<noteq> PNone \<and> \<not> startswith_underscore n \<and> \<not> callable v)
         (instance_dict c))"

text \<open>
  The names of the fields of a contact, their wire names, and the test of the loop of
  \<^verbatim>\<open>as_dict\<close> for an attribute that is given an entry.
\<close>

definition field_names :: "string list" where
  "field_names =
    [''organization_name'', ''job_title'', ''first_name'', ''last_name'', ''address1'',
     ''address2'', ''city'', ''state_province'', ''state_province_choice'', ''postal_code'',
     ''country'', ''phone'', ''phone_ext'', ''fax'', ''email_address'']"

definition camel_names :: "string list" where
  "camel_names =
    [''OrganizationName'', ''JobTitle'', ''FirstName'', ''LastName'', ''Address1'',
     ''Address2'', ''City'', ''StateProvince'', ''StateProvinceChoice'', ''PostalCode'',
     ''Country'', ''Phone'', ''PhoneExt'', ''Fax'', ''EmailAddress'']"

definition emitted :: "contact \<Rightarrow> string \<Rightarrow> bool" where
  "emitted c attr =
    (case getattr c attr of
       None \<Rightarrow> False
     | Some v \<Rightarrow> \<not> (callable v \<or> startswith_underscore attr \<or> v = PNone))"

text \<open>
  A value given for \<^verbatim>\<open>admin\<close>, \<^verbatim>\<open>tech\<close> or \<^verbatim>\<open>aux_billing\<close> that is a \<^verbatim>\<open>Contact\<close> in the
  store, other than the registrant at \<open>r\<close>, and carries the string \<open>q\<close> as prefix.
\<close>

definition supplied_contact :: "world \<Rightarrow> addr \<Rightarrow> pyval \<Rightarrow> string \<Rightarrow> bool" where
  "supplied_contact w r v q =
    (case v of
       PObj a \<Rightarrow>
         a \<noteq> r \<and> a < next_addr w \<and>
         (case contacts w a of Some x \<Rightarrow> u_prefix x = PStr q | None \<Rightarrow> False)
     | _ \<Rightarrow> False)"

text \<open>
  The state of a client as its constructor leaves it: the dictionary \<open>base_opts\<close> is
  allocated and its keys are the four credentials, no more. A computation keeps the
  dictionaries when it only allocates: every dictionary that existed before is as it
  was.
\<close>

definition credential_keys :: "string list" where
  "credential_keys = [''ApiUser'', ''ApiKey'', ''UserName'', ''ClientIp'']"

definition credentials_only :: "client \<Rightarrow> world \<Rightarrow> bool" where
  "credentials_only self w =
    (base_opts self < next_addr w \<and> map fst (dicts w (base_opts self)) = credential_keys)"

definition keeps_dicts :: "'a io \<Rightarrow> bool" where
  "keeps_dicts m =
    (\<forall>w. next_addr w \<le> next_addr (snd (m w)) \<and>
         (\<forall>a<next_addr w. dicts (snd (m w)) a = dicts w a))"

subsection \<open>Sample data\<close>

text \<open>
  Three response bodies and what \<^verbatim>\<open>xmltodict.parse\<close> returns for them: attributes under
  keys that begin with \<^verbatim>\<open>@\<close>, an empty element as \<^verbatim>\<open>None\<close>, children of the same name
  as a list, and a child that is the only one of its name as the child itself.
\<close>

definition error_xml :: string where
  \<open>error_xml =
    ''<ApiResponse><Errors><Error Number="2019166">Domain not found</Error></Errors></ApiResponse>''\<close>

definition error_doc :: pyval where
  "error_doc =
    PDict [(''ApiResponse'', PDict
      [(''Errors'', PDict
         [(''Error'', PDict [(''@Number'', PStr ''2019166''),
                             (''#text'', PStr ''Domain not found'')])])])]"

definition domain_a :: pyval where
  "domain_a =
    PDict [(''@ID'', PStr ''127''), (''@Name'', PStr ''a.com''), (''@User'', PStr ''owner''),
           (''@Created'', PStr ''02/15/2016''), (''@Expires'', PStr ''02/15/2022''),
           (''@IsExpired'', PStr ''false''), (''@IsLocked'', PStr ''true''),
           (''@AutoRenew'', PStr ''false''), (''@WhoisGuard'', PStr ''ENABLED'')]"

definition domain_b :: pyval where
  "domain_b =
    PDict [(''@ID'', PStr ''381''), (''@Name'', PStr ''b.org''), (''@User'', PStr ''owner''),
           (''@Created'', PStr ''04/28/2016''), (''@Expires'', PStr ''04/28/2023''),
           (''@IsExpired'', PStr ''true''), (''@IsLocked'', PStr ''false''),
           (''@AutoRenew'', PStr ''true''), (''@WhoisGuard'', PStr ''NOTPRESENT'')]"

definition two_domains_xml :: string where
  \<open>two_domains_xml =
    ''<ApiResponse><Errors/><CommandResponse><DomainGetListResult>'' @
    ''<Domain ID="127" Name="a.com" User="owner" Created="02/15/2016" Expires="02/15/2022" '' @
    ''IsExpired="false" IsLocked="true" AutoRenew="false" WhoisGuard="ENABLED"/>'' @
    ''<Domain ID="381" Name="b.org" User="owner" Created="04/28/2016" Expires="04/28/2023" '' @
    ''IsExpired="true" IsLocked="false" AutoRenew="true" WhoisGuard="NOTPRESENT"/>'' @
    ''</DomainGetListResult></CommandResponse></ApiResponse>''\<close>

definition one_domain_xml :: string where
  \<open>one_domain_xml =
    ''<ApiResponse><Errors/><CommandResponse><DomainGetListResult>'' @
    ''<Domain ID="127" Name="a.com" User="owner" Created="02/15/2016" Expires="02/15/2022" '' @
    ''IsExpired="false" IsLocked="true" AutoRenew="false" WhoisGuard="ENABLED"/>'' @
    ''</DomainGetListResult></CommandResponse></ApiResponse>''\<close>

definition list_doc :: "pyval \<Rightarrow> pyval" where
  "list_doc domains =
    PDict [(''ApiResponse'', PDict
      [(''Errors'', PNone),
       (''CommandResponse'', PDict
          [(''DomainGetListResult'', PDict [(''Domain'', domains)])])])]"

definition two_domains_doc :: pyval where
  "two_domains_doc = list_doc (PList [domain_a, domain_b])"

definition one_domain_doc :: pyval where
  "one_domain_doc = list_doc domain_a"

text \<open>
  Libraries for the examples: the remote side answers every request with \<open>body\<close>, and
  the parsers are given on the strings that occur in the sample data.
\<close>

definition sample_parse :: "string \<Rightarrow> error + pyval" where
  "sample_parse s =
    (if s = error_xml then Inr error_doc
     else if s = two_domains_xml then Inr two_domains_doc
     else if s = one_domain_xml then Inr one_domain_doc
     else Inl (LibraryError ''ExpatError''))"

definition sample_strptime :: "pyval \<Rightarrow> string \<Rightarrow> error + date" where
  "sample_strptime v fmt =
    (if fmt \<noteq> ''%m/%d/%Y'' then Inl (ValueError ''format'')
     else if v = PStr ''02/15/2016'' then Inr \<lparr>year = 2016, month = 2, day = 15\<rparr>
     else if v = PStr ''02/15/2022'' then Inr \<lparr>year = 2022, month = 2, day = 15\<rparr>
     else if v = PStr ''04/28/2016'' then Inr \<lparr>year = 2016, month = 4, day = 28\<rparr>
     else if v = PStr ''04/28/2023'' then Inr \<lparr>year = 2023, month = 4, day = 28\<rparr>
     else Inl (ValueError ''time data does not match format''))"

definition sample_int :: "pyval \<Rightarrow> error + int" where
  "sample_int v =
    (if v = PStr ''127'' then Inr 127
     else if v = PStr ''381'' then Inr 381
     else Inl (ValueError ''invalid literal for int()''))"

definition sample_env :: "string \<Rightarrow> env" where
  "sample_env body =
    \<lparr> http_post = (\<lambda>url data. Inr (Response body)),
      http_get = (\<lambda>url. Inr (Response (''203.0.113.7'' @ [CHR 0x0A]))),
      xml_parse = sample_parse,
      strptime_date = sample_strptime,
      py_int = sample_int \<rparr>"

definition empty_world :: world where
  "empty_world = \<lparr> contacts = (\<lambda>a. None), dicts = (\<lambda>a. []), next_addr = 0, sent = [] \<rparr>"

text \<open>A client and the world after its construction.\<close>

definition sample_client :: client where
  "sample_client = \<lparr> base_opts = 0, base_url = ''https://api.namecheap.com/xml.response'' \<rparr>"

definition sample_world :: world where
  "sample_world =
    \<lparr> contacts = (\<lambda>a. None),
      dicts = (\<lambda>a. if a = 0 then [(''ApiUser'', PStr ''joe''), (''ApiKey'', PStr ''k3y''),
                                   (''UserName'', PStr ''joe''), (''ClientIp'', PStr ''203.0.113.7'')]
                     else []),
      next_addr = 1,
      sent = [Get ''http://icanhazip.com''] \<rparr>"

text \<open>
  A second contact, and the world of the client with the registrant at address 1 and the
  second contact, constructed with prefix \<open>p\<close>, at address 2.
\<close>

definition eve_contact :: "pyval \<Rightarrow> contact" where
  "eve_contact prefix =
    \<lparr> u_prefix = prefix, organization_name = PStr ''Eve Ltd'', job_title = PNone,
      first_name = PStr ''Eve'', last_name = PStr ''Roe'',
      address1 = PStr ''2 Side St'', address2 = PNone, city = PStr ''Orem'',
      state_province = PStr ''UT'', state_province_choice = PNone,
      postal_code = PStr ''84057'', country = PStr ''US'',
      phone = PStr ''+001.8015559'', phone_ext = PNone, fax = PNone,
      email_address = PStr ''eve@example.com'' \<rparr>"

definition contacts_world :: "pyval \<Rightarrow> world" where
  "contacts_world p =
    \<lparr> contacts = (\<lambda>a. if a = 1 then Some (john_doe_contact (PStr []))
                      else if a = 2 then Some (eve_contact p) else None),
      dicts = (\<lambda>a. if a = 0 then [(''ApiUser'', PStr ''joe''), (''ApiKey'', PStr ''k3y''),
                                   (''UserName'', PStr ''joe''), (''ClientIp'', PStr ''203.0.113.7'')]
                     else []),
      next_addr = 3,
      sent = [Get ''http://icanhazip.com''] \<rparr>"

section \<open>Properties of Contact construction\<close>

lemma dict_item_Some: "map_of d k = Some v \<Longrightarrow> dict_item d k = Inr v"
  by (simp add: dict_item_def)

lemma dict_item_None: "map_of d k = None \<Longrightarrow> dict_item d k = Inl (KeyError (PStr k))"
  by (simp add: dict_item_def)

lemma bind_err_Inr: "bind_err (Inr x) f = f x"
  by (simp add: bind_err_def)

lemma bind_err_Inl: "bind_err (Inl e) f = Inl e"
  by (simp add: bind_err_def)

lemma assign_fields_missing:
  "find (\<lambda>f. supplied kwargs f = None) assignment_order = Some k \<Longrightarrow>
   assign_fields prefix kwargs = Inl (KeyError (PStr k))"
  by (auto simp: assignment_order_def supplied_def assign_fields_def bind_err_def dict_item_def
      split: if_splits option.splits)

lemma assign_fields_present:
  assumes "\<forall>f\<in>set required_fields. supplied kwargs f \<noteq> None"
  shows "\<exists>c. assign_fields prefix kwargs = Inr c \<and> u_prefix c = prefix \<and>
     (\<forall>f\<in>set required_fields. getattr c f = supplied kwargs f) \<and>
     phone c = dict_get kwargs ''phone'' \<and> fax c = dict_get kwargs ''fax''"
proof -
  have s: "\<exists>v. supplied kwargs f = Some v" if "f \<in> set required_fields" for f
    using assms that by blast
  have m: "\<exists>v. map_of kwargs f = Some v" if "f \<in> set required_fields" "f \<noteq> ''email_address''" for f
    using s[OF that(1)] that(2) by (simp add: supplied_def)
  obtain v1 where v1: "map_of kwargs ''first_name'' = Some v1"
    using m[of "''first_name''"] by (auto simp: required_fields_def)
  obtain v2 where v2: "map_of kwargs ''last_name'' = Some v2"
    using m[of "''last_name''"] by (auto simp: required_fields_def)
  obtain v3 where v3: "map_of kwargs ''address1'' = Some v3"
    using m[of "''address1''"] by (auto simp: required_fields_def)
  obtain v4 where v4: "map_of kwargs ''city'' = Some v4"
    using m[of "''city''"] by (auto simp: required_fields_def)
  obtain v5 where v5: "map_of kwargs ''state_province'' = Some v5"
    using m[of "''state_province''"] by (auto simp: required_fields_def)
  obtain v6 where v6: "map_of kwargs ''postal_code'' = Some v6"
    using m[of "''postal_code''"] by (auto simp: required_fields_def)
  obtain v7 where v7: "map_of kwargs ''country'' = Some v7"
    using m[of "''country''"] by (auto simp: required_fields_def)
  obtain v8 where v8: "map_of kwargs ''phone'' = Some v8"
    using m[of "''phone''"] by (auto simp: required_fields_def)
  obtain v9 where v9: "supplied kwargs ''email_address'' = Some v9"
    using s[of "''email_address''"] by (auto simp: required_fields_def)
  have e: "(if truthy (dict_get kwargs ''email'') then Inr (dict_get kwargs ''email'')
            else dict_item kwargs ''email_address'') = Inr v9"
    using v9 by (auto simp: supplied_def dict_item_def split: if_splits)
  let ?c = "\<lparr> u_prefix = prefix,
          organization_name = dict_get kwargs ''organization_name'',
          job_title = dict_get kwargs ''job_title'',
          first_name = v1, last_name = v2, address1 = v3,
          address2 = dict_get kwargs ''address2'',
          city = v4, state_province = v5,
          state_province_choice = dict_get kwargs ''state_province_choice'',
          postal_code = v6, country = v7, phone = v8,
          phone_ext = dict_get kwargs ''phone_ext'',
          fax = dict_get kwargs ''fax'',
          email_address = v9 \<rparr>"
  have a: "assign_fields prefix kwargs = Inr ?c"
    unfolding assign_fields_def
    by (simp only: dict_item_Some[OF v1] dict_item_Some[OF v2] dict_item_Some[OF v3]
        dict_item_Some[OF v4] dict_item_Some[OF v5] dict_item_Some[OF v6]
        dict_item_Some[OF v7] dict_item_Some[OF v8] e bind_err_Inr)
  have g: "\<forall>f\<in>set required_fields. getattr ?c f = supplied kwargs f"
    using v1 v2 v3 v4 v5 v6 v7 v8 v9
    by (simp add: required_fields_def getattr_def instance_dict_def data_fields_def supplied_def)
  have p: "phone ?c = dict_get kwargs ''phone''"
    using v8 by (simp add: dict_get_def)
  from a g p show ?thesis by simp
qed

lemma check_required_ok:
  "check_required c fs = Inr () \<longleftrightarrow>
   list_all (\<lambda>f. case getattr c f of None \<Rightarrow> False | Some v \<Rightarrow> truthy v) fs"
  by (induction fs) (auto split: option.splits)

lemma check_required_first_empty:
  "\<forall>f\<in>set fs. getattr c f \<noteq> None \<Longrightarrow>
   find (\<lambda>f. case getattr c f of None \<Rightarrow> False | Some v \<Rightarrow> \<not> truthy v) fs = Some f \<Longrightarrow>
   check_required c fs = Inl (ContactValidationError (f @ '' is required''))"
  by (induction fs) (auto split: option.splits if_splits)

lemma re_match_take: "re_match ps s = re_match ps (take (length ps) s)"
  by (induction ps s rule: re_match.induct) auto

lemma re_match_length: "re_match ps s \<Longrightarrow> length ps \<le> length s"
  by (induction ps s rule: re_match.induct) auto

lemma length_twelve:
  "length (s::'a list) = 12 \<Longrightarrow> \<exists>a b c d e f g h i j k l. s = [a, b, c, d, e, f, g, h, i, j, k, l]"
  by (simp add: eval_nat_numeral length_Suc_conv) blast

lemma phone_regex_unfold:
  "phone_regex = [Lit (CHR ''+''), Digit, Digit, Digit, Lit (CHR ''.''),
                  Digit, Digit, Digit, Digit, Digit, Digit, Digit]"
  by (simp add: phone_regex_def eval_nat_numeral)

lemma phone_regex_exact:
  assumes "length s = 12"
  shows "re_match phone_regex s = spec_phone_format s"
proof -
  from length_twelve[OF assms] obtain a b c d e f g h i j k l
    where "s = [a, b, c, d, e, f, g, h, i, j, k, l]" by blast
  then show ?thesis
    by (auto simp add: phone_regex_def spec_phone_format_def eval_nat_numeral)
qed

lemma phone_regex_prefix: "re_match phone_regex s = spec_phone_format (take 12 s)"
proof (cases "12 \<le> length s")
  case True
  have "re_match phone_regex s = re_match phone_regex (take 12 s)"
    using re_match_take[of phone_regex s] by (simp add: phone_regex_def)
  with True show ?thesis using phone_regex_exact[of "take 12 s"] by simp
next
  case False
  then have "\<not> re_match phone_regex s"
    using re_match_length[of phone_regex s] by (auto simp: phone_regex_def)
  with False show ?thesis by (simp add: spec_phone_format_def)
qed

text \<open>
  Claim C1, as the code has it. The required items are read with \<^verbatim>\<open>kwargs[...]\<close>, so a
  required item that is absent makes construction fail with \<^verbatim>\<open>KeyError\<close> for the first
  absent key in reading order (a non-empty \<^verbatim>\<open>email\<close> item stands for
  \<^verbatim>\<open>email_address\<close>). When all nine are present, construction fails with
  \<^verbatim>\<open>ContactValidationError('<field> is required')\<close> for the first empty field in the
  order of \<open>required_fields\<close>. When all nine are present and non-empty, the phone
  number is valid and the fax number is empty or valid, construction succeeds and
  the object holds the supplied values.
\<close>

theorem Contact_init_required_fields:
  "(find (\<lambda>f. supplied kwargs f = None) assignment_order = Some k \<longrightarrow>
      Contact_init prefix kwargs = Inl (KeyError (PStr k))) \<and>
   (list_all (\<lambda>f. supplied kwargs f \<noteq> None) required_fields \<and>
    find (empty_field kwargs) required_fields = Some f \<longrightarrow>
      Contact_init prefix kwargs = Inl (ContactValidationError (f @ '' is required''))) \<and>
   (list_all (nonempty_field kwargs) required_fields \<and>
    validate_phone_number (dict_get kwargs ''phone'') = Inr True \<and>
    (truthy (dict_get kwargs ''fax'') \<longrightarrow>
       validate_phone_number (dict_get kwargs ''fax'') = Inr True) \<longrightarrow>
      (\<exists>c. Contact_init prefix kwargs = Inr c \<and> u_prefix c = prefix \<and>
           list_all (\<lambda>f. getattr c f = supplied kwargs f) required_fields))"
proof (intro conjI impI)
  assume "find (\<lambda>f. supplied kwargs f = None) assignment_order = Some k"
  then show "Contact_init prefix kwargs = Inl (KeyError (PStr k))"
    by (simp add: Contact_init_def assign_fields_missing bind_err_Inl)
next
  assume h: "list_all (\<lambda>f. supplied kwargs f \<noteq> None) required_fields \<and>
    find (empty_field kwargs) required_fields = Some f"
  then have "\<forall>f\<in>set required_fields. supplied kwargs f \<noteq> None"
    by (simp add: list_all_iff)
  from assign_fields_present[OF this, of prefix] obtain c where
    c: "assign_fields prefix kwargs = Inr c"
       "\<forall>f\<in>set required_fields. getattr c f = supplied kwargs f" by blast
  have e: "(\<lambda>f. case getattr c f of None \<Rightarrow> False | Some v \<Rightarrow> \<not> truthy v) f = empty_field kwargs f"
    if "f \<in> set required_fields" for f
    using c(2) that by (simp add: empty_field_def)
  have "find (\<lambda>f. case getattr c f of None \<Rightarrow> False | Some v \<Rightarrow> \<not> truthy v) required_fields
      = find (empty_field kwargs) required_fields"
    by (rule find_cong) (simp_all add: e)
  with h have "find (\<lambda>f. case getattr c f of None \<Rightarrow> False | Some v \<Rightarrow> \<not> truthy v) required_fields = Some f"
    by simp
  moreover have "\<forall>f\<in>set required_fields. getattr c f \<noteq> None"
    using h c(2) by (simp add: list_all_iff)
  ultimately have "check_required c required_fields = Inl (ContactValidationError (f @ '' is required''))"
    by (rule check_required_first_empty[rotated])
  then show "Contact_init prefix kwargs = Inl (ContactValidationError (f @ '' is required''))"
    by (simp add: Contact_init_def c(1) validate_def bind_err_Inl bind_err_Inr)
next
  assume h: "list_all (nonempty_field kwargs) required_fields \<and>
    validate_phone_number (dict_get kwargs ''phone'') = Inr True \<and>
    (truthy (dict_get kwargs ''fax'') \<longrightarrow>
       validate_phone_number (dict_get kwargs ''fax'') = Inr True)"
  then have n: "\<forall>f\<in>set required_fields. nonempty_field kwargs f"
    by (simp add: list_all_iff)
  then have "\<forall>f\<in>set required_fields. supplied kwargs f \<noteq> None"
    by (auto simp: nonempty_field_def split: option.splits)
  from assign_fields_present[OF this, of prefix] obtain c where
    c: "assign_fields prefix kwargs = Inr c" "u_prefix c = prefix"
       "\<forall>f\<in>set required_fields. getattr c f = supplied kwargs f"
       "phone c = dict_get kwargs ''phone''" "fax c = dict_get kwargs ''fax''" by blast
  have "check_required c required_fields = Inr ()"
    unfolding check_required_ok list_all_iff
    using n c(3) by (auto simp: nonempty_field_def split: option.splits)
  then have "validate c = Inr ()"
    using h by (simp add: validate_def c(4,5) bind_err_Inr)
  then have "Contact_init prefix kwargs = Inr c"
    by (simp add: Contact_init_def c(1) bind_err_Inr)
  with c(2,3) show "\<exists>c. Contact_init prefix kwargs = Inr c \<and> u_prefix c = prefix \<and>
           list_all (\<lambda>f. getattr c f = supplied kwargs f) required_fields"
    by (auto simp: list_all_iff)
qed

text \<open>
  The three cases at concrete arguments: no \<^verbatim>\<open>first_name\<close>, an empty \<^verbatim>\<open>city\<close>, and a
  complete set of arguments.
\<close>

theorem Contact_init_required_fields_witness:
  "Contact_init (PStr []) (filter (\<lambda>kv. fst kv \<noteq> ''first_name'') john_doe)
     = Inl (KeyError (PStr ''first_name'')) \<and>
   Contact_init (PStr []) (dict_set john_doe ''city'' (PStr []))
     = Inl (ContactValidationError ''city is required'') \<and>
   (\<exists>c. Contact_init (PStr ''Registrant'') john_doe = Inr c \<and> u_prefix c = PStr ''Registrant'' \<and>
        list_all (\<lambda>f. getattr c f = supplied john_doe f) required_fields)"
proof -
  let ?kw1 = "filter (\<lambda>kv. fst kv \<noteq> ''first_name'') john_doe"
  let ?kw2 = "dict_set john_doe ''city'' (PStr [])"
  have 1: "find (\<lambda>f. supplied ?kw1 f = None) assignment_order = Some ''first_name''"
    by (simp add: john_doe_def assignment_order_def supplied_def dict_get_def)
  have 2: "list_all (\<lambda>f. supplied ?kw2 f \<noteq> None) required_fields \<and>
    find (empty_field ?kw2) required_fields = Some ''city''"
    by (simp add: john_doe_def required_fields_def supplied_def empty_field_def dict_get_def)
  have 3: "list_all (nonempty_field john_doe) required_fields \<and>
    validate_phone_number (dict_get john_doe ''phone'') = Inr True \<and>
    (truthy (dict_get john_doe ''fax'') \<longrightarrow>
       validate_phone_number (dict_get john_doe ''fax'') = Inr True)"
    by (simp add: john_doe_def required_fields_def supplied_def nonempty_field_def dict_get_def
        phone_regex_unfold is_digit_def)
  show ?thesis
    using Contact_init_required_fields[where kwargs = ?kw1 and k = "''first_name''"
        and prefix = "PStr []"] 1
      Contact_init_required_fields[where kwargs = ?kw2 and f = "''city''" and prefix = "PStr []"] 2
      Contact_init_required_fields[where kwargs = john_doe and prefix = "PStr ''Registrant''"] 3
    by simp
qed

text \<open>
  Claim C1 as worded fails twice. A missing \<^verbatim>\<open>first_name\<close> raises \<^verbatim>\<open>KeyError\<close>, not
  \<^verbatim>\<open>ContactValidationError\<close>; and with all nine required fields non-empty and a valid
  phone number, a malformed fax number still makes construction fail.
\<close>

theorem Contact_init_missing_counterexample:
  "supplied (filter (\<lambda>kv. fst kv \<noteq> ''first_name'') john_doe) ''first_name'' = None \<and>
   Contact_init (PStr []) (filter (\<lambda>kv. fst kv \<noteq> ''first_name'') john_doe)
     = Inl (KeyError (PStr ''first_name'')) \<and>
   list_all (nonempty_field (dict_set john_doe ''fax'' (PStr ''555''))) required_fields \<and>
   validate_phone_number (dict_get (dict_set john_doe ''fax'' (PStr ''555'')) ''phone'') = Inr True \<and>
   Contact_init (PStr []) (dict_set john_doe ''fax'' (PStr ''555''))
     = Inl (ContactValidationError ''fax is not in valid format'')"
  by (simp add: john_doe_def Contact_init_def assign_fields_def bind_err_def dict_item_def
      dict_get_def supplied_def nonempty_field_def required_fields_def validate_def
      getattr_def instance_dict_def data_fields_def phone_regex_unfold is_digit_def)

text \<open>
  Claim C4, as the code has it. With all required fields present and non-empty and a
  string as phone number, the check is on the beginning of the number: the first
  twelve characters must be a plus sign, three digits, a dot and seven digits, and what
  follows them is not examined. A phone number that does not begin so raises
  \<^verbatim>\<open>ContactValidationError('phone is not in valid format')\<close>. When the phone number
  begins so, a fax number that is a non-empty string and does not begin so raises
  \<^verbatim>\<open>ContactValidationError('fax is not in valid format')\<close>, and construction succeeds
  when the fax number is absent, empty, or a string that begins so. Nothing is stated
  about a phone or fax number that is not a string.
\<close>

theorem Contact_init_phone_format:
  assumes "list_all (nonempty_field kwargs) required_fields"
      and "dict_get kwargs ''phone'' = PStr p"
  shows "(\<not> spec_phone_format (take 12 p) \<longrightarrow>
            Contact_init prefix kwargs
              = Inl (ContactValidationError ''phone is not in valid format'')) \<and>
         (spec_phone_format (take 12 p) \<and> dict_get kwargs ''fax'' = PStr x \<and> x \<noteq> [] \<and>
          \<not> spec_phone_format (take 12 x) \<longrightarrow>
            Contact_init prefix kwargs
              = Inl (ContactValidationError ''fax is not in valid format'')) \<and>
         (spec_phone_format (take 12 p) \<and>
          (truthy (dict_get kwargs ''fax'') \<longrightarrow>
             dict_get kwargs ''fax'' = PStr x \<and> spec_phone_format (take 12 x)) \<longrightarrow>
            (\<exists>c. Contact_init prefix kwargs = Inr c \<and> phone c = PStr p \<and>
                 fax c = dict_get kwargs ''fax''))"
proof -
  from assms(1) have n: "\<forall>f\<in>set required_fields. nonempty_field kwargs f"
    by (simp add: list_all_iff)
  then have "\<forall>f\<in>set required_fields. supplied kwargs f \<noteq> None"
    by (auto simp: nonempty_field_def split: option.splits)
  from assign_fields_present[OF this, of prefix] obtain c where
    c: "assign_fields prefix kwargs = Inr c"
       "\<forall>f\<in>set required_fields. getattr c f = supplied kwargs f"
       "phone c = dict_get kwargs ''phone''" "fax c = dict_get kwargs ''fax''" by blast
  have r: "check_required c required_fields = Inr ()"
    unfolding check_required_ok list_all_iff
    using n c(2) by (auto simp: nonempty_field_def split: option.splits)
  have i: "Contact_init prefix kwargs = bind_err (validate c) (\<lambda>_. Inr c)"
    by (simp add: Contact_init_def c(1) bind_err_Inr)
  have v: "validate c =
    (if \<not> spec_phone_format (take 12 p)
     then Inl (ContactValidationError ''phone is not in valid format'')
     else if truthy (fax c) then
        bind_err (validate_phone_number (fax c)) (\<lambda>fax_ok.
          if \<not> fax_ok then Inl (ContactValidationError ''fax is not in valid format'')
          else Inr ())
      else Inr ())"
    by (simp add: validate_def r c(3) assms(2) bind_err_Inr phone_regex_prefix)
  show ?thesis
    unfolding i v using c(3,4) assms(2)
    by (auto simp: bind_err_def phone_regex_prefix)
qed

text \<open>The three cases at concrete arguments.\<close>

theorem Contact_init_phone_format_witness:
  "Contact_init (PStr []) (dict_set john_doe ''phone'' (PStr ''801-555-1212''))
     = Inl (ContactValidationError ''phone is not in valid format'') \<and>
   Contact_init (PStr []) (dict_set john_doe ''fax'' (PStr ''555''))
     = Inl (ContactValidationError ''fax is not in valid format'') \<and>
   (\<exists>c. Contact_init (PStr []) (dict_set john_doe ''fax'' (PStr ''+001.8015552''))  = Inr c \<and>
        phone c = PStr ''+001.8015551'' \<and> fax c = PStr ''+001.8015552'')"
proof -
  let ?kw1 = "dict_set john_doe ''phone'' (PStr ''801-555-1212'')"
  let ?kw2 = "dict_set john_doe ''fax'' (PStr ''555'')"
  let ?kw3 = "dict_set john_doe ''fax'' (PStr ''+001.8015552'')"
  have 1: "list_all (nonempty_field ?kw1) required_fields"
          "dict_get ?kw1 ''phone'' = PStr ''801-555-1212''"
          "\<not> spec_phone_format (take 12 ''801-555-1212'')"
    by (simp_all add: john_doe_def required_fields_def supplied_def nonempty_field_def
        dict_get_def spec_phone_format_def)
  have 2: "list_all (nonempty_field ?kw2) required_fields"
          "dict_get ?kw2 ''phone'' = PStr ''+001.8015551''"
          "spec_phone_format (take 12 ''+001.8015551'') \<and> dict_get ?kw2 ''fax'' = PStr ''555'' \<and>
           ''555'' \<noteq> [] \<and> \<not> spec_phone_format (take 12 ''555'')"
    by (simp_all add: john_doe_def required_fields_def supplied_def nonempty_field_def
        dict_get_def spec_phone_format_def is_digit_def)
  have 3: "list_all (nonempty_field ?kw3) required_fields"
          "dict_get ?kw3 ''phone'' = PStr ''+001.8015551''"
          "spec_phone_format (take 12 ''+001.8015551'') \<and>
          (truthy (dict_get ?kw3 ''fax'') \<longrightarrow>
             dict_get ?kw3 ''fax'' = PStr ''+001.8015552'' \<and>
             spec_phone_format (take 12 ''+001.8015552''))"
    by (simp_all add: john_doe_def required_fields_def supplied_def nonempty_field_def
        dict_get_def spec_phone_format_def is_digit_def)
  have f: "dict_get ?kw3 ''fax'' = PStr ''+001.8015552''"
    by (simp add: john_doe_def dict_get_def)
  have a: "Contact_init (PStr []) ?kw1
      = Inl (ContactValidationError ''phone is not in valid format'')"
    using Contact_init_phone_format[OF 1(1,2), where prefix = "PStr []"] 1(3) by blast
  have b: "Contact_init (PStr []) ?kw2
      = Inl (ContactValidationError ''fax is not in valid format'')"
    using Contact_init_phone_format[OF 2(1,2), where x = "''555''" and prefix = "PStr []"] 2(3)
    by blast
  have c: "\<exists>c. Contact_init (PStr []) ?kw3 = Inr c \<and> phone c = PStr ''+001.8015551'' \<and>
      fax c = dict_get ?kw3 ''fax''"
    using Contact_init_phone_format[OF 3(1,2), where x = "''+001.8015552''"
        and prefix = "PStr []"] 3(3)
    by blast
  from a b c show ?thesis unfolding f by blast
qed

text \<open>
  Claim C4 as worded fails. A number that is not in the format, because more characters
  follow the seventh digit, is accepted both as phone and as fax number; and a phone or
  fax number that is not a string is not in the format either, yet what is raised for
  it is \<^verbatim>\<open>TypeError\<close>, from the match, and not a \<^verbatim>\<open>ContactValidationError\<close>.
\<close>

theorem Contact_init_phone_format_counterexample:
  "\<not> spec_phone_format ''+001.8015551212 ext. 9'' \<and>
   Contact_init (PStr [])
     (dict_set (dict_set john_doe ''phone'' (PStr ''+001.8015551212 ext. 9''))
        ''fax'' (PStr ''+001.8015551212 ext. 9''))
     = Inr ((john_doe_contact (PStr []))
         \<lparr> phone := PStr ''+001.8015551212 ext. 9'', fax := PStr ''+001.8015551212 ext. 9'' \<rparr>) \<and>
   Contact_init (PStr []) (dict_set john_doe ''fax'' (PInt 5551234)) = Inl TypeError \<and>
   Contact_init (PStr []) (dict_set john_doe ''phone'' (PInt 5551234)) = Inl TypeError"
  by (simp add: john_doe_def john_doe_contact_def Contact_init_def assign_fields_def bind_err_def
      dict_item_def dict_get_def required_fields_def validate_def
      getattr_def instance_dict_def data_fields_def phone_regex_unfold is_digit_def
      spec_phone_format_def)

section \<open>Properties of requests\<close>

lemma map_of_dict_set: "map_of (dict_set d k v) = (map_of d)(k \<mapsto> v)"
  by (induction d k v rule: dict_set.induct) auto

lemma map_of_dict_update_keys:
  "set ks \<subseteq> fst ` set e \<Longrightarrow>
   map_of (dict_update_keys d e ks) = map_of d ++ (map_of e |` set ks)"
proof (induction ks arbitrary: d)
  case Nil
  then show ?case by simp
next
  case (Cons k ks)
  from Cons.prems obtain v where v: "map_of e k = Some v"
    by (cases "map_of e k") (auto simp: map_of_eq_None_iff)
  have "map_of (dict_update_keys d e (k # ks))
      = (map_of d)(k \<mapsto> v) ++ (map_of e |` set ks)"
    using Cons by (simp add: map_of_dict_set dict_get_def v)
  also have "\<dots> = map_of d ++ (map_of e |` set (k # ks))"
    by (rule ext) (auto simp: map_add_def restrict_map_def v split: option.splits)
  finally show ?case .
qed

lemma map_of_dict_update: "map_of (dict_update d e) = map_of d ++ map_of e"
proof -
  have "map_of e |` set (map fst e) = map_of e"
  proof (rule ext)
    fix x
    have "map_of e x = None" if "x \<notin> fst ` set e"
      using that by (simp add: map_of_eq_None_iff)
    then show "(map_of e |` set (map fst e)) x = map_of e x"
      by (cases "x \<in> fst ` set e") (simp_all add: restrict_map_def)
  qed
  then show ?thesis
    by (simp add: dict_update_def map_of_dict_update_keys)
qed

lemma request_eq:
  "request ev self kwargs w =
    (http_post ev (base_url self) (dict_update (dicts w (base_opts self)) kwargs),
     w\<lparr>dicts := (dicts w)(next_addr w := dict_update (dicts w (base_opts self)) kwargs),
       next_addr := Suc (next_addr w),
       sent := sent w @ [Post (base_url self) (dict_update (dicts w (base_opts self)) kwargs)]\<rparr>)"
  by (simp add: request_def bind_io_def copy_dict_def alloc_dict_def update_dict_def
      requests_post_def)

lemma NamecheapClient_init_base_opts:
  assumes "NamecheapClient_init ev api_user api_key username client_ip environment w0 = (Inr cl, w)"
  shows "base_opts cl < next_addr w \<and> base_url cl = environment \<and>
         (\<exists>ip. dicts w (base_opts cl) =
            [(''ApiUser'', api_user), (''ApiKey'', api_key),
             (''UserName'', if truthy username then username else api_user),
             (''ClientIp'', ip)] \<and> (truthy client_ip \<longrightarrow> ip = client_ip))"
  using assms
  by (auto simp: NamecheapClient_init_def bind_io_def return_io_def alloc_dict_def
      split: if_splits sum.splits)

text \<open>
  Claim C3. Whatever keyword arguments \<open>kwargs\<close> the body of \<^verbatim>\<open>request\<close> receives, the call
  adds exactly one request to those sent: a POST to \<open>base_url\<close> whose parameters are the
  items of \<open>base_opts\<close> overridden by the items of \<open>kwargs\<close>, and it returns what that
  POST returns. For a client as its constructor leaves it, \<open>base_opts\<close> holds
  \<^verbatim>\<open>ApiUser\<close>, \<^verbatim>\<open>ApiKey\<close>, \<^verbatim>\<open>UserName\<close> and \<^verbatim>\<open>ClientIp\<close>.
\<close>

theorem request_posts_merged_options:
  "sent (snd (request ev self kwargs w))
     = sent w @ [Post (base_url self) (dict_update (dicts w (base_opts self)) kwargs)] \<and>
   fst (request ev self kwargs w)
     = http_post ev (base_url self) (dict_update (dicts w (base_opts self)) kwargs) \<and>
   map_of (dict_update (dicts w (base_opts self)) kwargs)
     = map_of (dicts w (base_opts self)) ++ map_of kwargs \<and>
   (NamecheapClient_init ev api_user api_key username client_ip environment w0 = (Inr self, w) \<longrightarrow>
      base_url self = environment \<and>
      (\<exists>ip. dicts w (base_opts self) =
            [(''ApiUser'', api_user), (''ApiKey'', api_key),
             (''UserName'', if truthy username then username else api_user),
             (''ClientIp'', ip)] \<and> (truthy client_ip \<longrightarrow> ip = client_ip)))"
  using NamecheapClient_init_base_opts[of ev api_user api_key username client_ip environment w0 self w]
  by (simp add: request_eq map_of_dict_update)

lemma sample_init:
  "NamecheapClient_init (sample_env []) (PStr ''joe'') (PStr ''k3y'') PNone PNone
     ''https://api.namecheap.com/xml.response'' empty_world = (Inr sample_client, sample_world)"
  by (simp add: NamecheapClient_init_def sample_env_def empty_world_def sample_client_def
      sample_world_def bind_io_def return_io_def alloc_dict_def strip_def is_space_def fun_eq_iff)

text \<open>
  A freshly constructed client; the per-call \<^verbatim>\<open>UserName\<close> overrides the credential.
\<close>

theorem request_posts_merged_options_witness:
  "NamecheapClient_init (sample_env []) (PStr ''joe'') (PStr ''k3y'') PNone PNone
     ''https://api.namecheap.com/xml.response'' empty_world = (Inr sample_client, sample_world) \<and>
   sent (snd (request (sample_env []) sample_client
           [(''Command'', PStr ''namecheap.domains.getList''), (''UserName'', PStr ''jane'')]
           sample_world))
     = [Get ''http://icanhazip.com'',
        Post ''https://api.namecheap.com/xml.response''
          [(''ApiUser'', PStr ''joe''), (''ApiKey'', PStr ''k3y''), (''UserName'', PStr ''jane''),
           (''ClientIp'', PStr ''203.0.113.7''),
           (''Command'', PStr ''namecheap.domains.getList'')]] \<and>
   fst (request (sample_env []) sample_client
           [(''Command'', PStr ''namecheap.domains.getList''), (''UserName'', PStr ''jane'')]
           sample_world) = Inr (Response [])"
proof -
  let ?kw = "[(''Command'', PStr ''namecheap.domains.getList''), (''UserName'', PStr ''jane'')]"
  have d: "dict_update (dicts sample_world (base_opts sample_client)) ?kw =
      [(''ApiUser'', PStr ''joe''), (''ApiKey'', PStr ''k3y''), (''UserName'', PStr ''jane''),
       (''ClientIp'', PStr ''203.0.113.7''), (''Command'', PStr ''namecheap.domains.getList'')]"
    by (simp add: sample_world_def sample_client_def dict_update_def dict_get_def)
  have u: "base_url sample_client = ''https://api.namecheap.com/xml.response''"
          "sent sample_world = [Get ''http://icanhazip.com'']"
          "http_post (sample_env []) = (\<lambda>url data. Inr (Response []))"
    by (simp_all add: sample_client_def sample_world_def sample_env_def)
  show ?thesis
    using request_posts_merged_options[of "sample_env []" sample_client ?kw sample_world
        "PStr ''joe''" "PStr ''k3y''" PNone PNone "''https://api.namecheap.com/xml.response''"
        empty_world] sample_init
    unfolding d u by simp
qed

text \<open>
  Claim C10. For a client whose \<open>base_opts\<close> dictionary has been allocated, a call of
  \<^verbatim>\<open>request\<close> leaves that dictionary (and every contact) as it was, whatever the keyword
  arguments, so a later request is built from the same credentials.
\<close>

theorem request_preserves_base_opts:
  assumes "base_opts self < next_addr w"
  shows "dicts (snd (request ev self kwargs w)) (base_opts self) = dicts w (base_opts self) \<and>
         base_opts self < next_addr (snd (request ev self kwargs w)) \<and>
         contacts (snd (request ev self kwargs w)) = contacts w \<and>
         sent (snd (request ev self later (snd (request ev self kwargs w))))
           = sent w @ [Post (base_url self) (dict_update (dicts w (base_opts self)) kwargs),
                       Post (base_url self) (dict_update (dicts w (base_opts self)) later)]"
  using assms by (simp add: request_eq)

text \<open>
  A request that overrides \<^verbatim>\<open>ApiUser\<close> and \<^verbatim>\<open>ClientIp\<close>, followed by a second request.
\<close>

theorem request_preserves_base_opts_witness:
  "base_opts sample_client < next_addr sample_world \<and>
   dicts (snd (request (sample_env []) sample_client
            [(''ApiUser'', PStr ''mallory''), (''ClientIp'', PStr ''198.51.100.1'')] sample_world))
     (base_opts sample_client)
     = [(''ApiUser'', PStr ''joe''), (''ApiKey'', PStr ''k3y''),
        (''UserName'', PStr ''joe''), (''ClientIp'', PStr ''203.0.113.7'')] \<and>
   sent (snd (request (sample_env []) sample_client [(''Command'', PStr ''second'')]
          (snd (request (sample_env []) sample_client
            [(''ApiUser'', PStr ''mallory''), (''ClientIp'', PStr ''198.51.100.1'')] sample_world))))
     = [Get ''http://icanhazip.com'',
        Post ''https://api.namecheap.com/xml.response''
          [(''ApiUser'', PStr ''mallory''), (''ApiKey'', PStr ''k3y''),
           (''UserName'', PStr ''joe''), (''ClientIp'', PStr ''198.51.100.1'')],
        Post ''https://api.namecheap.com/xml.response''
          [(''ApiUser'', PStr ''joe''), (''ApiKey'', PStr ''k3y''),
           (''UserName'', PStr ''joe''), (''ClientIp'', PStr ''203.0.113.7''),
           (''Command'', PStr ''second'')]]"
proof -
  have h: "base_opts sample_client < next_addr sample_world"
    by (simp add: sample_client_def sample_world_def)
  have d: "dicts sample_world (base_opts sample_client) =
      [(''ApiUser'', PStr ''joe''), (''ApiKey'', PStr ''k3y''),
       (''UserName'', PStr ''joe''), (''ClientIp'', PStr ''203.0.113.7'')]"
    "base_url sample_client = ''https://api.namecheap.com/xml.response''"
    "sent sample_world = [Get ''http://icanhazip.com'']"
    by (simp_all add: sample_client_def sample_world_def)
  show ?thesis
    using h request_preserves_base_opts[OF h, of "sample_env []"
        "[(''ApiUser'', PStr ''mallory''), (''ClientIp'', PStr ''198.51.100.1'')]"
        "[(''Command'', PStr ''second'')]"]
    unfolding d by (simp add: dict_update_def dict_get_def)
qed

text \<open>
  Every method of the client only allocates: the dictionaries that existed before a call
  are unchanged after it. So a client that was constructed, and has since been used
  through its methods only, still holds the four credentials and nothing else in
  \<open>base_opts\<close>.
\<close>

lemma keeps_dicts_return: "keeps_dicts (return_io x)"
  by (simp add: keeps_dicts_def return_io_def)

lemma keeps_dicts_raise: "keeps_dicts (raise_io e)"
  by (simp add: keeps_dicts_def raise_io_def)

lemma keeps_dicts_lift: "keeps_dicts (lift_io r)"
  by (simp add: keeps_dicts_def lift_io_def)

lemma keeps_dicts_bind:
  assumes "keeps_dicts m" and "\<And>x. keeps_dicts (f x)"
  shows "keeps_dicts (bind_io m f)"
  unfolding keeps_dicts_def
proof (intro allI)
  fix w
  obtain r w1 where m: "m w = (r, w1)" by (cases "m w")
  from assms(1) m have 1: "next_addr w \<le> next_addr w1"
    "\<forall>a<next_addr w. dicts w1 a = dicts w a"
    unfolding keeps_dicts_def by (metis snd_conv)+
  show "next_addr w \<le> next_addr (snd (bind_io m f w)) \<and>
        (\<forall>a<next_addr w. dicts (snd (bind_io m f w)) a = dicts w a)"
  proof (cases r)
    case (Inl e)
    with m 1 show ?thesis by (simp add: bind_io_def)
  next
    case (Inr x)
    from assms(2)[of x] have 2: "next_addr w1 \<le> next_addr (snd (f x w1))"
      "\<forall>a<next_addr w1. dicts (snd (f x w1)) a = dicts w1 a"
      unfolding keeps_dicts_def by blast+
    from Inr m have "bind_io m f w = f x w1" by (simp add: bind_io_def)
    with 1 2 show ?thesis by auto
  qed
qed

lemma keeps_dicts_request: "keeps_dicts (request ev self kwargs)"
  by (simp add: keeps_dicts_def request_eq)

lemma keeps_dicts_set_prefix: "keeps_dicts (set_prefix obj p)"
  by (simp add: keeps_dicts_def set_prefix_def split: pyval.splits option.splits)

lemma keeps_dicts_copy_contact: "keeps_dicts (copy_contact obj)"
  by (simp add: keeps_dicts_def copy_contact_def split: pyval.splits option.splits)

lemma keeps_dicts_call_as_dict: "keeps_dicts (call_as_dict obj)"
  by (simp add: keeps_dicts_def call_as_dict_def split: pyval.splits option.splits)

lemma keeps_dicts_role_contact: "keeps_dicts (role_contact kwargs role p registrant)"
  unfolding role_contact_def
  by (simp add: keeps_dicts_return keeps_dicts_bind keeps_dicts_copy_contact
      keeps_dicts_set_prefix)

lemma keeps_dicts_domains_create_opts: "keeps_dicts (domains_create_opts domain_name kwargs)"
  unfolding domains_create_opts_def
  by (intro keeps_dicts_bind keeps_dicts_lift keeps_dicts_set_prefix keeps_dicts_role_contact
      keeps_dicts_call_as_dict keeps_dicts_return)

lemma keeps_dicts_domains_create: "keeps_dicts (domains_create ev self domain_name kwargs)"
  unfolding domains_create_def
  by (intro keeps_dicts_bind keeps_dicts_domains_create_opts keeps_dicts_request)

lemma keeps_dicts_common_get_list:
  "keeps_dicts (common_get_list ev self command list_type sort_by page_size page search_term)"
  unfolding common_get_list_def
  by (intro keeps_dicts_bind keeps_dicts_lift keeps_dicts_request)

lemma keeps_dicts_common_get_list_kw: "keeps_dicts (common_get_list_kw ev self command kwargs)"
  unfolding common_get_list_kw_def
  by (simp add: keeps_dicts_raise keeps_dicts_common_get_list)

lemma keeps_dicts_ssl_get_list: "keeps_dicts (ssl_get_list ev self kwargs)"
  unfolding ssl_get_list_def by (rule keeps_dicts_common_get_list_kw)

lemma keeps_dicts_domains_get_list: "keeps_dicts (domains_get_list ev self kwargs)"
  unfolding domains_get_list_def
  by (intro keeps_dicts_bind keeps_dicts_common_get_list_kw keeps_dicts_lift)

lemma keeps_dicts_domains_dns_set_custom:
  "keeps_dicts (domains_dns_set_custom ev self sld tld nameservers)"
  unfolding domains_dns_set_custom_def
  by (intro keeps_dicts_bind keeps_dicts_lift keeps_dicts_request)

lemma credentials_only_kept:
  assumes "credentials_only self w" "keeps_dicts m"
  shows "credentials_only self (snd (m w))"
proof -
  from assms(2) have "next_addr w \<le> next_addr (snd (m w))"
    "\<forall>a<next_addr w. dicts (snd (m w)) a = dicts w a"
    unfolding keeps_dicts_def by blast+
  with assms(1) show ?thesis by (auto simp: credentials_only_def)
qed

lemma NamecheapClient_init_credentials:
  assumes "NamecheapClient_init ev api_user api_key username client_ip environment w0 = (Inr self, w)"
  shows "credentials_only self w"
  using NamecheapClient_init_base_opts[OF assms]
  by (auto simp: credentials_only_def credential_keys_def)

lemma credentials_no_search_term:
  "credentials_only self w \<Longrightarrow> map_of (dicts w (base_opts self)) ''SearchTerm'' = None"
proof -
  assume "credentials_only self w"
  then have "fst ` set (dicts w (base_opts self)) = set credential_keys"
    unfolding credentials_only_def by (metis set_map)
  then have "''SearchTerm'' \<notin> fst ` set (dicts w (base_opts self))"
    by (simp add: credential_keys_def)
  then show ?thesis by (simp add: map_of_eq_None_iff)
qed

lemma common_get_list_opts_valid:
  assumes "list_type \<in> set (map PStr [''all'', ''expiring'', ''expired''])"
      and "sort_by \<in> set (map PStr [''name'', ''-name'', ''expire_date'', ''-expire_date'',
                                     ''create_date'', ''-create_date''])"
  shows "\<exists>opts. common_get_list_opts command list_type sort_by page_size page search_term
            = Inr opts \<and>
          map_of opts ''Command'' = Some command \<and>
          map_of opts ''Page'' = Some page \<and>
          map_of opts ''PageSize'' = Some page_size \<and>
          map_of opts ''SearchTerm'' = (if truthy search_term then Some search_term else None)"
proof -
  from assms(1) obtain l where l: "except_KeyError (table_item LIST_TYPES list_type)
      (ValueError ''Invalid list_type.'') = Inr l"
    by (auto simp: LIST_TYPES_def dict_item_def)
  from assms(2) obtain s where s: "except_KeyError (table_item SORT_TYPES sort_by)
      (ValueError ''Invalid sort_by'') = Inr s"
    by (auto simp: SORT_TYPES_def dict_item_def)
  show ?thesis
    by (simp add: common_get_list_opts_def l s bind_err_Inr map_of_dict_set)
qed

lemma bind_io_lift_Inr: "bind_io (lift_io (Inr x)) f = f x"
  by (simp add: bind_io_def lift_io_def)

lemma bind_io_lift_Inl: "bind_io (lift_io (Inl e)) f = raise_io e"
  by (simp add: bind_io_def lift_io_def raise_io_def)

text \<open>
  Claim C8. With \<open>list_type\<close> and \<open>sort_by\<close> among the accepted names,
  \<^verbatim>\<open>common_get_list\<close> sends one POST whose \<^verbatim>\<open>Page\<close> and \<^verbatim>\<open>PageSize\<close> are the arguments
  \<open>page\<close> and \<open>page_size\<close> unchanged. The call sets \<^verbatim>\<open>SearchTerm\<close> to \<open>search_term\<close>
  when that is non-empty and does not set it otherwise; on a client whose \<open>base_opts\<close>
  holds the credentials only, which is how the constructor leaves it and how
  \<^verbatim>\<open>common_get_list\<close> keeps it, the POST then has no \<^verbatim>\<open>SearchTerm\<close> at all. Called with
  keywords, as \<^verbatim>\<open>domains_get_list\<close> and \<^verbatim>\<open>ssl_get_list\<close> do, the defaults are page 1 and
  page size 10.
\<close>

theorem common_get_list_passes_pagination:
  assumes "list_type \<in> set (map PStr [''all'', ''expiring'', ''expired''])"
      and "sort_by \<in> set (map PStr [''name'', ''-name'', ''expire_date'', ''-expire_date'',
                                     ''create_date'', ''-create_date''])"
  shows "\<exists>data.
      sent (snd (common_get_list ev self command list_type sort_by page_size page search_term w))
        = sent w @ [Post (base_url self) data] \<and>
      fst (common_get_list ev self command list_type sort_by page_size page search_term w)
        = http_post ev (base_url self) data \<and>
      map_of data ''Page'' = Some page \<and>
      map_of data ''PageSize'' = Some page_size \<and>
      map_of data ''SearchTerm'' =
        (if truthy search_term then Some search_term
         else map_of (dicts w (base_opts self)) ''SearchTerm'') \<and>
      (list_all (\<lambda>k. k \<in> set [''list_type'', ''sort_by'', ''page_size'', ''page'', ''search_term''])
         (map fst kwargs) \<longrightarrow>
       common_get_list_kw ev self command kwargs =
         common_get_list ev self command
            (dict_get_default kwargs ''list_type'' (PStr ''all''))
            (dict_get_default kwargs ''sort_by'' (PStr ''name''))
            (dict_get_default kwargs ''page_size'' (PInt 10))
            (dict_get_default kwargs ''page'' (PInt 1))
            (dict_get kwargs ''search_term'')) \<and>
      ssl_get_list ev self kwargs = common_get_list_kw ev self (PStr ''namecheap.ssl.getList'') kwargs \<and>
      snd (domains_get_list ev self kwargs w)
        = snd (common_get_list_kw ev self (PStr ''namecheap.domains.getList'') kwargs w) \<and>
      (credentials_only self w \<longrightarrow>
         map_of data ''SearchTerm'' = (if truthy search_term then Some search_term else None) \<and>
         credentials_only self
           (snd (common_get_list ev self command list_type sort_by page_size page search_term w))) \<and>
      (NamecheapClient_init ev api_user api_key username client_ip environment w0 = (Inr self, w)
         \<longrightarrow> credentials_only self w)"
proof -
  from common_get_list_opts_valid[OF assms, of command page_size page search_term]
  obtain opts where o:
    "common_get_list_opts command list_type sort_by page_size page search_term = Inr opts"
    "map_of opts ''Command'' = Some command"
    "map_of opts ''Page'' = Some page"
    "map_of opts ''PageSize'' = Some page_size"
    "map_of opts ''SearchTerm'' = (if truthy search_term then Some search_term else None)"
    by blast
  let ?data = "dict_update (dicts w (base_opts self)) opts"
  have c: "common_get_list ev self command list_type sort_by page_size page search_term w
      = request ev self opts w"
    by (simp add: common_get_list_def o(1) bind_io_lift_Inr)
  have k: "common_get_list_kw ev self command kwargs =
         common_get_list ev self command
            (dict_get_default kwargs ''list_type'' (PStr ''all''))
            (dict_get_default kwargs ''sort_by'' (PStr ''name''))
            (dict_get_default kwargs ''page_size'' (PInt 10))
            (dict_get_default kwargs ''page'' (PInt 1))
            (dict_get kwargs ''search_term'')"
    if "list_all (\<lambda>k. k \<in> set [''list_type'', ''sort_by'', ''page_size'', ''page'', ''search_term''])
         (map fst kwargs)"
  proof -
    have "\<not> list_ex (\<lambda>k. k \<notin> set [''list_type'', ''sort_by'', ''page_size'', ''page'',
                                     ''search_term'']) (map fst kwargs)"
      using that unfolding list_ex_iff list_all_iff by blast
    then show ?thesis
      by (simp only: common_get_list_kw_def if_False dict_get_default_def dict_get_def)
  qed
  have d: "snd (domains_get_list ev self kwargs w)
        = snd (common_get_list_kw ev self (PStr ''namecheap.domains.getList'') kwargs w)"
    by (simp add: domains_get_list_def bind_io_def lift_io_def split: prod.splits sum.splits)
  have "sent (snd (request ev self opts w)) = sent w @ [Post (base_url self) ?data]"
       "fst (request ev self opts w) = http_post ev (base_url self) ?data"
    by (simp_all add: request_eq)
  moreover have "map_of ?data ''Page'' = Some page" "map_of ?data ''PageSize'' = Some page_size"
    "map_of ?data ''SearchTerm'' =
        (if truthy search_term then Some search_term
         else map_of (dicts w (base_opts self)) ''SearchTerm'')"
    by (simp_all add: map_of_dict_update map_add_def o)
  moreover have "map_of ?data ''SearchTerm'' = (if truthy search_term then Some search_term else None)"
    if "credentials_only self w"
    using credentials_no_search_term[OF that] by (simp add: map_of_dict_update map_add_def o)
  moreover have "credentials_only self (snd (request ev self opts w))"
    if "credentials_only self w"
    using credentials_only_kept[OF that keeps_dicts_request] .
  moreover have "credentials_only self w"
    if "NamecheapClient_init ev api_user api_key username client_ip environment w0 = (Inr self, w)"
    using NamecheapClient_init_credentials[OF that] .
  ultimately show ?thesis
    unfolding c using k d by (intro exI[of _ ?data]) (simp add: ssl_get_list_def)
qed

text \<open>
  On the client of the examples, as constructed: page 3 of size 25 with an empty search
  term has no \<^verbatim>\<open>SearchTerm\<close>, a search term that is given is sent, and a call by keyword
  takes the defaults.
\<close>

theorem common_get_list_passes_pagination_witness:
  "NamecheapClient_init (sample_env []) (PStr ''joe'') (PStr ''k3y'') PNone PNone
     ''https://api.namecheap.com/xml.response'' empty_world = (Inr sample_client, sample_world) \<and>
   credentials_only sample_client sample_world \<and>
   (\<exists>data.
      sent (snd (common_get_list (sample_env []) sample_client (PStr ''namecheap.ssl.getList'')
              (PStr ''expiring'') (PStr ''-name'') (PInt 25) (PInt 3) (PStr []) sample_world))
        = sent sample_world @ [Post (base_url sample_client) data] \<and>
      map_of data ''Page'' = Some (PInt 3) \<and>
      map_of data ''PageSize'' = Some (PInt 25) \<and>
      map_of data ''SearchTerm'' = None \<and>
      common_get_list_kw (sample_env []) sample_client (PStr ''namecheap.ssl.getList'')
          [(''sort_by'', PStr ''-name'')] =
        common_get_list (sample_env []) sample_client (PStr ''namecheap.ssl.getList'')
          (PStr ''all'') (PStr ''-name'') (PInt 10) (PInt 1) PNone) \<and>
   (\<exists>data.
      sent (snd (common_get_list (sample_env []) sample_client (PStr ''namecheap.ssl.getList'')
              (PStr ''all'') (PStr ''name'') (PInt 10) (PInt 1) (PStr ''shop'') sample_world))
        = sent sample_world @ [Post (base_url sample_client) data] \<and>
      map_of data ''SearchTerm'' = Some (PStr ''shop''))"
proof -
  have 1: "PStr ''expiring'' \<in> set (map PStr [''all'', ''expiring'', ''expired''])"
          "PStr ''all'' \<in> set (map PStr [''all'', ''expiring'', ''expired''])" by simp_all
  have 2: "PStr ''-name'' \<in> set (map PStr [''name'', ''-name'', ''expire_date'', ''-expire_date'',
                                     ''create_date'', ''-create_date''])"
          "PStr ''name'' \<in> set (map PStr [''name'', ''-name'', ''expire_date'', ''-expire_date'',
                                     ''create_date'', ''-create_date''])" by simp_all
  have 3: "list_all (\<lambda>k. k \<in> set [''list_type'', ''sort_by'', ''page_size'', ''page'', ''search_term''])
         (map fst [(''sort_by'', PStr ''-name'')])" by simp
  have 4: "credentials_only sample_client sample_world"
    using common_get_list_passes_pagination[OF 1(1) 2(1), where ev = "sample_env []"
        and self = sample_client and w = sample_world and api_user = "PStr ''joe''"
        and api_key = "PStr ''k3y''" and username = PNone and client_ip = PNone
        and environment = "''https://api.namecheap.com/xml.response''" and w0 = empty_world]
      sample_init
    by blast
  have a: "\<exists>data.
      sent (snd (common_get_list (sample_env []) sample_client (PStr ''namecheap.ssl.getList'')
              (PStr ''expiring'') (PStr ''-name'') (PInt 25) (PInt 3) (PStr []) sample_world))
        = sent sample_world @ [Post (base_url sample_client) data] \<and>
      map_of data ''Page'' = Some (PInt 3) \<and>
      map_of data ''PageSize'' = Some (PInt 25) \<and>
      map_of data ''SearchTerm'' = None \<and>
      common_get_list_kw (sample_env []) sample_client (PStr ''namecheap.ssl.getList'')
          [(''sort_by'', PStr ''-name'')] =
        common_get_list (sample_env []) sample_client (PStr ''namecheap.ssl.getList'')
          (PStr ''all'') (PStr ''-name'') (PInt 10) (PInt 1) PNone"
    using common_get_list_passes_pagination[OF 1(1) 2(1), where ev = "sample_env []"
        and self = sample_client and command = "PStr ''namecheap.ssl.getList''"
        and page_size = "PInt 25" and page = "PInt 3" and search_term = "PStr []"
        and w = sample_world and kwargs = "[(''sort_by'', PStr ''-name'')]"] 3 4
    by (auto simp add: dict_get_default_def dict_get_def)
  have b: "\<exists>data.
      sent (snd (common_get_list (sample_env []) sample_client (PStr ''namecheap.ssl.getList'')
              (PStr ''all'') (PStr ''name'') (PInt 10) (PInt 1) (PStr ''shop'') sample_world))
        = sent sample_world @ [Post (base_url sample_client) data] \<and>
      map_of data ''SearchTerm'' = Some (PStr ''shop'')"
    using common_get_list_passes_pagination[OF 1(2) 2(2), where ev = "sample_env []"
        and self = sample_client and command = "PStr ''namecheap.ssl.getList''"
        and page_size = "PInt 10" and page = "PInt 1" and search_term = "PStr ''shop''"
        and w = sample_world and kwargs = "[]"] 4
    by auto
  from sample_init 4 a b show ?thesis by blast
qed

lemma sample_common_get_list_kw:
  "fst (common_get_list_kw (sample_env body) sample_client command [] sample_world)
     = Inr (Response body)"
  by (simp add: common_get_list_kw_def common_get_list_def common_get_list_opts_def
      LIST_TYPES_def SORT_TYPES_def dict_item_def dict_get_default_def bind_err_Inr
      bind_io_lift_Inr request_eq sample_env_def)

lemma sample_parse_error: "xml_parse (sample_env body) error_xml = Inr error_doc"
  by (simp add: sample_env_def sample_parse_def)

lemma sample_parse_two: "xml_parse (sample_env body) two_domains_xml = Inr two_domains_doc"
  by (simp add: sample_env_def sample_parse_def two_domains_xml_def error_xml_def)

lemma sample_check_errors:
  "check_errors error_doc =
     Inl (Exception (PDict [(''Error'', PDict [(''@Number'', PStr ''2019166''),
                                               (''#text'', PStr ''Domain not found'')])]))"
  by (simp add: check_errors_def error_doc_def dict_item_def bind_err_Inr)

text \<open>
  Claim C9. \<^verbatim>\<open>ssl_get_list\<close> returns what \<^verbatim>\<open>common_get_list\<close> returns and never parses
  the response: its result does not depend on \<^verbatim>\<open>xmltodict.parse\<close>, and a response whose
  document carries API errors is returned as it is.
\<close>

theorem ssl_get_list_returns_raw_response:
  "ssl_get_list ev self kwargs w
     = common_get_list_kw ev self (PStr ''namecheap.ssl.getList'') kwargs w \<and>
   ssl_get_list (ev\<lparr>xml_parse := p\<rparr>) self kwargs w = ssl_get_list ev self kwargs w \<and>
   (common_get_list_kw ev self (PStr ''namecheap.ssl.getList'') kwargs w = (Inr r, w') \<and>
    xml_parse ev (response_text r) = Inr doc \<and>
    check_errors doc = Inl (Exception errors) \<longrightarrow>
      ssl_get_list ev self kwargs w = (Inr r, w'))"
  by (simp add: ssl_get_list_def common_get_list_kw_def common_get_list_def request_def
      requests_post_def)

text \<open>
  A response that reports an error is returned, not raised.
\<close>

theorem ssl_get_list_returns_raw_response_witness:
  "xml_parse (sample_env error_xml) error_xml = Inr error_doc \<and>
   check_errors error_doc =
     Inl (Exception (PDict [(''Error'', PDict [(''@Number'', PStr ''2019166''),
                                               (''#text'', PStr ''Domain not found'')])])) \<and>
   fst (ssl_get_list (sample_env error_xml) sample_client [] sample_world)
     = Inr (Response error_xml)"
proof -
  let ?ev = "sample_env error_xml"
  let ?c = "common_get_list_kw ?ev sample_client (PStr ''namecheap.ssl.getList'') [] sample_world"
  obtain w1 where "?c = (Inr (Response error_xml), w1)"
    using sample_common_get_list_kw[of error_xml "PStr ''namecheap.ssl.getList''"]
    by (metis prod.collapse)
  moreover have "xml_parse ?ev (response_text (Response error_xml)) = Inr error_doc"
    by (simp add: sample_parse_error)
  ultimately have "ssl_get_list ?ev sample_client [] sample_world
      = (Inr (Response error_xml), w1)"
    using ssl_get_list_returns_raw_response[where ev = ?ev and self = sample_client
        and kwargs = "[]" and w = sample_world and r = "Response error_xml" and w' = w1
        and doc = error_doc] sample_check_errors
    by blast
  then show ?thesis
    by (simp add: sample_parse_error sample_check_errors)
qed

text \<open>
  Claim C5. When the body of the response received parses to a document whose
  \<^verbatim>\<open>ApiResponse\<close> has an \<^verbatim>\<open>Errors\<close> item, \<^verbatim>\<open>domains_get_list\<close> and
  \<^verbatim>\<open>domains_dns_set_custom\<close> raise \<^verbatim>\<open>Exception(errors)\<close> if that item is non-empty; if it
  is empty, the first goes on to build its result from the document and the second
  returns the response.
\<close>

theorem api_errors_raise:
  assumes "xml_parse ev (response_text r) = Inr doc"
      and "subscript doc ''ApiResponse'' = Inr api_response"
      and "subscript api_response ''Errors'' = Inr errors"
  shows "(common_get_list_kw ev self (PStr ''namecheap.domains.getList'') kwargs w = (Inr r, w') \<longrightarrow>
            domains_get_list ev self kwargs w =
              (if truthy errors then Inl (Exception errors) else domains_from_doc ev self doc, w')) \<and>
         (domains_dns_set_custom_opts sld tld nameservers = Inr get_opts \<and>
          request ev self get_opts w = (Inr r, w') \<longrightarrow>
            domains_dns_set_custom ev self sld tld nameservers w =
              (if truthy errors then Inl (Exception errors) else Inr r, w'))"
proof -
  have c: "check_errors doc = (if truthy errors then Inl (Exception errors) else Inr ())"
    by (simp add: check_errors_def assms(2,3) bind_err_Inr)
  show ?thesis
    by (simp add: domains_get_list_def domains_dns_set_custom_def domains_of_doc_def
        bind_io_def lift_io_def assms(1) c bind_err_Inr bind_err_Inl)
qed

text \<open>
  Both methods on a response with errors and on one without.
\<close>

theorem api_errors_raise_witness:
  "fst (domains_get_list (sample_env error_xml) sample_client [] sample_world)
     = Inl (Exception (PDict [(''Error'', PDict [(''@Number'', PStr ''2019166''),
                                                 (''#text'', PStr ''Domain not found'')])])) \<and>
   fst (domains_get_list (sample_env two_domains_xml) sample_client [] sample_world)
     = domains_from_doc (sample_env two_domains_xml) sample_client two_domains_doc \<and>
   fst (domains_dns_set_custom (sample_env error_xml) sample_client (PStr ''a'') (PStr ''com'')
          (PList [PStr ''ns1.a.com'', PStr ''ns2.a.com'']) sample_world)
     = Inl (Exception (PDict [(''Error'', PDict [(''@Number'', PStr ''2019166''),
                                                 (''#text'', PStr ''Domain not found'')])])) \<and>
   fst (domains_dns_set_custom (sample_env two_domains_xml) sample_client (PStr ''a'') (PStr ''com'')
          (PList [PStr ''ns1.a.com'', PStr ''ns2.a.com'']) sample_world)
     = Inr (Response two_domains_xml)"
proof -
  let ?e = "PDict [(''Error'', PDict [(''@Number'', PStr ''2019166''),
                                      (''#text'', PStr ''Domain not found'')])]"
  let ?cmd = "PStr ''namecheap.domains.getList''"
  let ?ns = "PList [PStr ''ns1.a.com'', PStr ''ns2.a.com'']"
  let ?opts = "[(''Command'', PStr ''namecheap.domains.dns.setCustom''), (''SLD'', PStr ''a''),
                (''TLD'', PStr ''com''), (''Nameservers'', PStr ''NS1.A.COM,NS2.A.COM'')]"
  have pe: "xml_parse (sample_env error_xml) (response_text (Response error_xml)) = Inr error_doc"
    by (simp add: sample_parse_error)
  have pt: "xml_parse (sample_env two_domains_xml) (response_text (Response two_domains_xml))
      = Inr two_domains_doc"
    by (simp add: sample_parse_two)
  have se: "subscript error_doc ''ApiResponse'' = Inr (PDict [(''Errors'', ?e)])"
           "subscript (PDict [(''Errors'', ?e)]) ''Errors'' = Inr ?e"
    by (simp_all add: error_doc_def dict_item_def)
  let ?api = "PDict [(''Errors'', PNone), (''CommandResponse'', PDict
          [(''DomainGetListResult'', PDict [(''Domain'', PList [domain_a, domain_b])])])]"
  have st: "subscript two_domains_doc ''ApiResponse'' = Inr ?api"
           "subscript ?api ''Errors'' = Inr PNone"
    by (simp_all add: two_domains_doc_def list_doc_def dict_item_def)
  have o: "domains_dns_set_custom_opts (PStr ''a'') (PStr ''com'') ?ns = Inr ?opts"
    by code_simp
  obtain w1 where ce: "common_get_list_kw (sample_env error_xml) sample_client ?cmd []
      sample_world = (Inr (Response error_xml), w1)"
    using sample_common_get_list_kw[of error_xml ?cmd] by (metis prod.collapse)
  obtain w2 where ct: "common_get_list_kw (sample_env two_domains_xml) sample_client ?cmd []
      sample_world = (Inr (Response two_domains_xml), w2)"
    using sample_common_get_list_kw[of two_domains_xml ?cmd] by (metis prod.collapse)
  obtain w3 where re: "request (sample_env error_xml) sample_client ?opts sample_world
      = (Inr (Response error_xml), w3)"
    by (simp add: request_eq sample_env_def)
  obtain w4 where rt: "request (sample_env two_domains_xml) sample_client ?opts sample_world
      = (Inr (Response two_domains_xml), w4)"
    by (simp add: request_eq sample_env_def)
  have 1: "fst (domains_get_list (sample_env error_xml) sample_client [] sample_world)
      = Inl (Exception ?e)"
    using api_errors_raise[OF pe se, where self = sample_client and kwargs = "[]"
        and w = sample_world and w' = w1] ce
    by simp
  have 2: "fst (domains_get_list (sample_env two_domains_xml) sample_client [] sample_world)
     = domains_from_doc (sample_env two_domains_xml) sample_client two_domains_doc"
    using api_errors_raise[OF pt st, where self = sample_client and kwargs = "[]"
        and w = sample_world and w' = w2] ct
    by simp
  have 3: "fst (domains_dns_set_custom (sample_env error_xml) sample_client (PStr ''a'')
          (PStr ''com'') ?ns sample_world) = Inl (Exception ?e)"
    using api_errors_raise[OF pe se, where self = sample_client and w = sample_world
        and sld = "PStr ''a''" and tld = "PStr ''com''" and nameservers = ?ns
        and get_opts = ?opts and w' = w3] o re
    by simp
  have 4: "fst (domains_dns_set_custom (sample_env two_domains_xml) sample_client (PStr ''a'')
          (PStr ''com'') ?ns sample_world) = Inr (Response two_domains_xml)"
    using api_errors_raise[OF pt st, where self = sample_client and w = sample_world
        and sld = "PStr ''a''" and tld = "PStr ''com''" and nameservers = ?ns
        and get_opts = ?opts and w' = w4] o rt
    by simp
  from 1 2 3 4 show ?thesis by blast
qed

section \<open>Properties of as\_dict\<close>

lemma camelize_dir_contact:
  "map camelize dir_contact =
    [''_Contact__RequiredFields'', ''__Init__'', ''_Camelize'', ''_Prefix'',
     ''_ValidatePhoneNumber'', ''Address1'', ''Address2'', ''AsDict'',
     ''City'', ''Country'', ''EmailAddress'', ''Fax'', ''FirstName'',
     ''JobTitle'', ''LastName'', ''OrganizationName'', ''Phone'', ''PhoneExt'',
     ''PostalCode'', ''StateProvince'', ''StateProvinceChoice'', ''Validate'']"
  by code_simp

lemma data_field_names: "map fst (data_fields c) = field_names"
  by (simp add: data_fields_def field_names_def)

lemma camelize_field_names: "map camelize field_names = camel_names"
  by code_simp

lemma spec_camel_case_field_names: "map spec_camel_case field_names = camel_names"
  by code_simp

lemma distinct_camel_names: "distinct camel_names"
  by (simp add: camel_names_def)

lemma distinct_field_names: "distinct field_names"
  by (simp add: field_names_def)

lemma camelize_eq_spec: "n \<in> set field_names \<Longrightarrow> camelize n = spec_camel_case n"
proof -
  assume "n \<in> set field_names"
  then obtain i where i: "i < length field_names" "field_names ! i = n"
    by (auto simp: in_set_conv_nth)
  have "map camelize field_names ! i = map spec_camel_case field_names ! i"
    by (simp only: camelize_field_names spec_camel_case_field_names)
  with i show ?thesis by simp
qed

lemma inj_camelize_dir: "inj_on camelize (set dir_contact)"
proof -
  have "distinct (map camelize dir_contact)"
    unfolding camelize_dir_contact by simp
  then show ?thesis by (simp add: distinct_map)
qed

lemma inj_spec_camel_case: "inj_on spec_camel_case (set field_names)"
proof -
  have "distinct (map spec_camel_case field_names)"
    unfolding spec_camel_case_field_names by (rule distinct_camel_names)
  then show ?thesis by (simp add: distinct_map)
qed

lemma not_emitted_underscore: "startswith_underscore n \<Longrightarrow> \<not> emitted c n"
  by (simp add: emitted_def split: option.splits)

lemma getattr_methods:
  "getattr c ''as_dict'' = Some (PCallable ''as_dict'')"
  "getattr c ''validate'' = Some (PCallable ''validate'')"
  by (simp_all add: getattr_def instance_dict_def data_fields_def class_dict_def)

lemma not_emitted_methods: "\<not> emitted c ''as_dict''" "\<not> emitted c ''validate''"
  by (simp_all add: emitted_def getattr_methods)

lemma dir_contact_kinds:
  "list_all (\<lambda>n. n \<in> set field_names \<or> startswith_underscore n \<or> n = ''as_dict'' \<or>
                  n = ''validate'') dir_contact"
  by code_simp

lemma emitted_dir:
  assumes "n \<in> set dir_contact" "emitted c n"
  shows "n \<in> set field_names"
proof -
  from assms(1) have "n \<in> set field_names \<or> startswith_underscore n \<or> n = ''as_dict'' \<or>
      n = ''validate''"
    using dir_contact_kinds unfolding list_all_iff by blast
  with assms(2) show ?thesis
    using not_emitted_underscore[of n c] not_emitted_methods[of c] by blast
qed

lemma field_names_no_underscore: "n \<in> set field_names \<Longrightarrow> \<not> startswith_underscore n"
proof -
  have "list_all (\<lambda>n. \<not> startswith_underscore n) field_names" by code_simp
  then show "n \<in> set field_names \<Longrightarrow> \<not> startswith_underscore n"
    unfolding list_all_iff by blast
qed

lemma field_names_in_dir: "n \<in> set field_names \<Longrightarrow> n \<in> set dir_contact"
proof -
  have "list_all (\<lambda>n. n \<in> set dir_contact) field_names" by code_simp
  then show "n \<in> set field_names \<Longrightarrow> n \<in> set dir_contact"
    unfolding list_all_iff by blast
qed

lemma getattr_dir: "n \<in> set dir_contact \<Longrightarrow> getattr c n \<noteq> None"
  by (auto simp: dir_contact_def getattr_def instance_dict_def data_fields_def class_dict_def)

lemma getattr_field:
  assumes "(n, v) \<in> set (data_fields c)"
  shows "getattr c n = Some v"
proof -
  have "distinct (map fst (instance_dict c))"
    by (simp add: instance_dict_def data_field_names field_names_def)
  moreover have "(n, v) \<in> set (instance_dict c)"
    using assms by (simp add: instance_dict_def)
  ultimately have "map_of (instance_dict c) n = Some v"
    by (rule map_of_is_SomeI)
  then show ?thesis by (simp add: getattr_def)
qed

lemma field_value:
  assumes "n \<in> set field_names"
  shows "\<exists>v. (n, v) \<in> set (data_fields c)"
proof -
  from assms have "n \<in> fst ` set (data_fields c)"
    using data_field_names[of c] by (metis set_map)
  then show ?thesis by auto
qed

lemma field_name_of_item: "(n, v) \<in> set (data_fields c) \<Longrightarrow> n \<in> set field_names"
  using data_field_names[of c] by (metis fst_conv image_eqI set_map)

lemma spec_as_dict_fields:
  "spec_as_dict p c =
    map (\<lambda>(n, v). (p @ spec_camel_case n, v))
      (filter (\<lambda>(n, v). v \<noteq> PNone \<and> \<not> callable v) (data_fields c))"
proof -
  have "filter (\<lambda>(n, v). v \<noteq> PNone \<and> \<not> startswith_underscore n \<and> \<not> callable v) (data_fields c)
      = filter (\<lambda>(n, v). v \<noteq> PNone \<and> \<not> callable v) (data_fields c)"
    by (rule filter_cong) (auto dest: field_name_of_item field_names_no_underscore)
  then show ?thesis
    by (simp add: spec_as_dict_def instance_dict_def)
qed

lemma spec_as_dict_member:
  "(k, v) \<in> set (spec_as_dict p c) \<longleftrightarrow>
   (\<exists>n. (n, v) \<in> set (data_fields c) \<and> v \<noteq> PNone \<and> \<not> callable v \<and> k = p @ spec_camel_case n)"
  unfolding spec_as_dict_fields by auto

lemma distinct_spec_as_dict: "distinct (map fst (spec_as_dict p c))"
proof -
  let ?xs = "filter (\<lambda>(n, v). v \<noteq> PNone \<and> \<not> callable v) (data_fields c)"
  have "map fst (spec_as_dict p c) = map (\<lambda>n. p @ spec_camel_case n) (map fst ?xs)"
    unfolding spec_as_dict_fields by (simp add: case_prod_unfold)
  moreover have "distinct (map fst ?xs)"
    using distinct_field_names by (simp add: distinct_map_filter data_field_names)
  moreover have "inj_on (\<lambda>n. p @ spec_camel_case n) (set (map fst ?xs))"
  proof (rule inj_onI)
    fix x y
    assume "x \<in> set (map fst ?xs)" "y \<in> set (map fst ?xs)"
      and e: "p @ spec_camel_case x = p @ spec_camel_case y"
    then have "x \<in> set field_names" "y \<in> set field_names"
      by (auto dest: field_name_of_item)
    with e show "x = y" using inj_spec_camel_case by (auto simp: inj_on_def)
  qed
  ultimately show ?thesis by (simp only: distinct_map)
qed

lemma emitted_field:
  "n \<in> set dir_contact \<and> emitted c n \<longleftrightarrow>
   (\<exists>v. (n, v) \<in> set (data_fields c) \<and> v \<noteq> PNone \<and> \<not> callable v)"
proof
  assume a: "n \<in> set dir_contact \<and> emitted c n"
  then have n: "n \<in> set field_names" by (auto dest: emitted_dir)
  then obtain v where v: "(n, v) \<in> set (data_fields c)" using field_value by blast
  with a have "v \<noteq> PNone \<and> \<not> callable v"
    by (auto simp: emitted_def getattr_field)
  with v show "\<exists>v. (n, v) \<in> set (data_fields c) \<and> v \<noteq> PNone \<and> \<not> callable v" by blast
next
  assume "\<exists>v. (n, v) \<in> set (data_fields c) \<and> v \<noteq> PNone \<and> \<not> callable v"
  then obtain v where v: "(n, v) \<in> set (data_fields c)" "v \<noteq> PNone" "\<not> callable v" by blast
  then have n: "n \<in> set field_names" by (auto dest: field_name_of_item)
  with v show "n \<in> set dir_contact \<and> emitted c n"
    by (auto simp: emitted_def getattr_field dest: field_names_in_dir field_names_no_underscore)
qed

lemma as_dict_loop_result:
  assumes "u_prefix c = PStr p"
      and "\<forall>n\<in>set names. getattr c n \<noteq> None"
      and "inj_on camelize (set names)"
  shows "\<exists>d. as_dict_loop c names ret = Inr d \<and>
          (\<forall>n\<in>set names. emitted c n \<longrightarrow> map_of d (p @ camelize n) = getattr c n) \<and>
          (\<forall>k. (\<forall>n\<in>set names. emitted c n \<longrightarrow> k \<noteq> p @ camelize n) \<longrightarrow>
                map_of d k = map_of ret k)"
  using assms(2,3)
proof (induction names arbitrary: ret)
  case Nil
  then show ?case by simp
next
  case (Cons a names)
  from Cons.prems obtain v where v: "getattr c a = Some v" by auto
  have inj: "inj_on camelize (set names)" and attrs: "\<forall>n\<in>set names. getattr c n \<noteq> None"
    using Cons.prems by (auto simp: inj_on_def)
  show ?case
  proof (cases "emitted c a")
    case False
    then have "as_dict_loop c (a # names) ret = as_dict_loop c names ret"
      by (simp add: v emitted_def)
    with Cons.IH[OF attrs inj, of ret] False show ?thesis by auto
  next
    case True
    let ?ret = "dict_set ret (p @ camelize a) v"
    have step: "as_dict_loop c (a # names) ret = as_dict_loop c names ?ret"
      using True by (simp add: v emitted_def assms(1) bind_err_Inr)
    from Cons.IH[OF attrs inj, of ?ret] obtain d where d:
      "as_dict_loop c names ?ret = Inr d"
      "\<forall>n\<in>set names. emitted c n \<longrightarrow> map_of d (p @ camelize n) = getattr c n"
      "\<forall>k. (\<forall>n\<in>set names. emitted c n \<longrightarrow> k \<noteq> p @ camelize n) \<longrightarrow>
            map_of d k = map_of ?ret k"
      by blast
    have a: "map_of d (p @ camelize a) = getattr c a"
    proof (cases "\<exists>n\<in>set names. emitted c n \<and> p @ camelize a = p @ camelize n")
      case True
      then obtain n where n: "n \<in> set names" "emitted c n" "camelize a = camelize n" by auto
      with Cons.prems(2) have "a = n" by (auto simp: inj_on_def)
      with n d(2) show ?thesis by auto
    next
      case False
      with d(3) have "map_of d (p @ camelize a) = map_of ?ret (p @ camelize a)" by blast
      then show ?thesis by (simp add: map_of_dict_set v)
    qed
    have b: "map_of d k = map_of ret k"
      if "\<forall>n\<in>set (a # names). emitted c n \<longrightarrow> k \<noteq> p @ camelize n" for k
    proof -
      from that True have "k \<noteq> p @ camelize a" by simp
      moreover from that d(3) have "map_of d k = map_of ?ret k" by simp
      ultimately show ?thesis by (simp add: map_of_dict_set)
    qed
    from d(1) d(2) a b show ?thesis unfolding step by auto
  qed
qed

lemma as_dict_map:
  assumes "u_prefix c = PStr p"
  shows "\<exists>d. as_dict c = Inr d \<and> map_of d = map_of (spec_as_dict p c)"
proof -
  from as_dict_loop_result[OF assms, of dir_contact "[]"] getattr_dir inj_camelize_dir
  obtain d where d: "as_dict c = Inr d"
    "\<forall>n\<in>set dir_contact. emitted c n \<longrightarrow> map_of d (p @ camelize n) = getattr c n"
    "\<forall>k. (\<forall>n\<in>set dir_contact. emitted c n \<longrightarrow> k \<noteq> p @ camelize n) \<longrightarrow> map_of d k = None"
    unfolding as_dict_def by auto
  have "map_of d k = map_of (spec_as_dict p c) k" for k
  proof (cases "\<exists>n\<in>set dir_contact. emitted c n \<and> k = p @ camelize n")
    case True
    then obtain n where n: "n \<in> set dir_contact" "emitted c n" "k = p @ camelize n" by blast
    then obtain v where v: "(n, v) \<in> set (data_fields c)" "v \<noteq> PNone" "\<not> callable v"
      using emitted_field[of n c] by blast
    then have f: "n \<in> set field_names" by (auto dest: field_name_of_item)
    have "map_of d k = Some v"
      using d(2) n v(1) by (simp add: getattr_field)
    moreover have "(k, v) \<in> set (spec_as_dict p c)"
      unfolding spec_as_dict_member using v n(3) camelize_eq_spec[OF f] by auto
    then have "map_of (spec_as_dict p c) k = Some v"
      using distinct_spec_as_dict by (rule map_of_is_SomeI[rotated])
    ultimately show ?thesis by simp
  next
    case False
    with d(3) have "map_of d k = None" by blast
    moreover have "map_of (spec_as_dict p c) k = None"
    proof (rule ccontr)
      assume "map_of (spec_as_dict p c) k \<noteq> None"
      then obtain v where "(k, v) \<in> set (spec_as_dict p c)"
        by (auto dest: map_of_SomeD)
      then obtain n where n: "(n, v) \<in> set (data_fields c)" "v \<noteq> PNone" "\<not> callable v"
        "k = p @ spec_camel_case n"
        unfolding spec_as_dict_member by blast
      then have f: "n \<in> set field_names" by (auto dest: field_name_of_item)
      from n have "n \<in> set dir_contact \<and> emitted c n"
        using emitted_field[of n c] by blast
      with False n(4) camelize_eq_spec[OF f] show False by auto
    qed
    ultimately show ?thesis by simp
  qed
  then have "map_of d = map_of (spec_as_dict p c)" by (rule ext)
  with d(1) show ?thesis by blast
qed

text \<open>
  Claim C2. For a contact whose prefix is the string \<open>p\<close>, \<^verbatim>\<open>as_dict\<close> returns a
  dictionary that is, as a map, the one the specification describes: one entry for each
  attribute that is not \<^verbatim>\<open>None\<close>, does not begin with an underscore and is not callable,
  under \<open>p\<close> followed by the CamelCase form of its name, bound to its value. Those keys
  are pairwise distinct, and on the names of the fields \<^verbatim>\<open>_camelize\<close> is the CamelCase
  form (\<^verbatim>\<open>first_name\<close> becomes \<^verbatim>\<open>FirstName\<close>).
\<close>

theorem as_dict_wire_names:
  assumes "u_prefix c = PStr p"
  shows "\<exists>d. as_dict c = Inr d \<and> map_of d = map_of (spec_as_dict p c) \<and>
           distinct (map fst (spec_as_dict p c)) \<and>
           (\<forall>n\<in>set field_names. camelize n = spec_camel_case n) \<and>
           map camelize field_names = camel_names \<and>
           camelize ''first_name'' = ''FirstName''"
proof -
  have "camelize ''first_name'' = ''FirstName''" by code_simp
  then show ?thesis
    using as_dict_map[OF assms] distinct_spec_as_dict camelize_eq_spec camelize_field_names
    by blast
qed

text \<open>The registrant of the examples: the optional fields are \<^verbatim>\<open>None\<close> and have no entry.\<close>


theorem as_dict_wire_names_witness:
  "\<exists>d. as_dict (john_doe_contact (PStr ''Registrant'')) = Inr d \<and>
       map_of d = map_of
         [(''RegistrantFirstName'', PStr ''John''),
          (''RegistrantLastName'', PStr ''Doe''),
          (''RegistrantAddress1'', PStr ''1 Main St''),
          (''RegistrantCity'', PStr ''Provo''),
          (''RegistrantStateProvince'', PStr ''UT''),
          (''RegistrantPostalCode'', PStr ''84601''),
          (''RegistrantCountry'', PStr ''US''),
          (''RegistrantPhone'', PStr ''+001.8015551''),
          (''RegistrantEmailAddress'', PStr ''john@example.com'')]"
proof -
  have p: "u_prefix (john_doe_contact (PStr ''Registrant'')) = PStr ''Registrant''"
    by (simp add: john_doe_contact_def)
  have s: "spec_as_dict ''Registrant'' (john_doe_contact (PStr ''Registrant'')) =
         [(''RegistrantFirstName'', PStr ''John''),
          (''RegistrantLastName'', PStr ''Doe''),
          (''RegistrantAddress1'', PStr ''1 Main St''),
          (''RegistrantCity'', PStr ''Provo''),
          (''RegistrantStateProvince'', PStr ''UT''),
          (''RegistrantPostalCode'', PStr ''84601''),
          (''RegistrantCountry'', PStr ''US''),
          (''RegistrantPhone'', PStr ''+001.8015551''),
          (''RegistrantEmailAddress'', PStr ''john@example.com'')]"
    by code_simp
  show ?thesis
    using as_dict_wire_names[OF p] unfolding s by blast
qed

section \<open>Properties of domains\_create\<close>

lemma suffix_free_check:
  "list_all (\<lambda>s. list_all (\<lambda>t. length s \<le> length t \<and> drop (length t - length s) t = s \<longrightarrow> t = s)
      camel_names) camel_names"
  by code_simp

lemma fixed_keys_check:
  "list_all (\<lambda>k. list_all (\<lambda>s. \<not> (length s \<le> length k \<and> drop (length k - length s) k = s))
      camel_names) [''Command'', ''DomainName'', ''Years'']"
  by code_simp

lemma camel_names_suffix_free:
  assumes "s \<in> set camel_names" "t \<in> set camel_names" "t = us @ s"
  shows "us = []"
proof -
  from assms(3) have "length s \<le> length t \<and> drop (length t - length s) t = s" by simp
  with assms(1,2) have "t = s"
    using suffix_free_check unfolding list_all_iff by blast
  with assms(3) show ?thesis by simp
qed

lemma wire_key_prefix:
  assumes "q @ s = q' @ s'" "s \<in> set camel_names" "s' \<in> set camel_names"
  shows "q = q'"
proof -
  from assms(1) obtain us where "(q = q' @ us \<and> us @ s = s') \<or> (q @ us = q' \<and> s = us @ s')"
    unfolding append_eq_append_conv2 by blast
  then show ?thesis
  proof
    assume a: "q = q' @ us \<and> us @ s = s'"
    then have "s' = us @ s" by simp
    from camel_names_suffix_free[OF assms(2,3) this] a show ?thesis by simp
  next
    assume a: "q @ us = q' \<and> s = us @ s'"
    then have "s = us @ s'" by simp
    from camel_names_suffix_free[OF assms(3,2) this] a show ?thesis by simp
  qed
qed

lemma fixed_key_not_wire:
  assumes "k \<in> set [''Command'', ''DomainName'', ''Years'']" "s \<in> set camel_names"
  shows "k \<noteq> q @ s"
proof
  assume "k = q @ s"
  then have "length s \<le> length k \<and> drop (length k - length s) k = s" by simp
  with assms show False
    using fixed_keys_check unfolding list_all_iff by blast
qed

lemma spec_as_dict_key:
  assumes "(k, v) \<in> set (spec_as_dict q x)"
  shows "\<exists>s\<in>set camel_names. k = q @ s"
proof -
  from assms obtain n where n: "(n, v) \<in> set (data_fields x)" "k = q @ spec_camel_case n"
    unfolding spec_as_dict_member by blast
  then have "n \<in> set field_names" by (auto dest: field_name_of_item)
  then have "spec_camel_case n \<in> set (map spec_camel_case field_names)" by simp
  then have "spec_camel_case n \<in> set camel_names"
    by (simp only: spec_camel_case_field_names)
  with n(2) show ?thesis by blast
qed

lemma spec_as_dict_other_prefix:
  assumes "(k, v) \<in> set (spec_as_dict q x)" "q' \<noteq> q"
  shows "map_of (spec_as_dict q' x') k = None"
proof (rule ccontr)
  assume "map_of (spec_as_dict q' x') k \<noteq> None"
  then obtain v' where "(k, v') \<in> set (spec_as_dict q' x')" by (auto dest: map_of_SomeD)
  with assms(1) obtain s s' where "s \<in> set camel_names" "k = q @ s"
    "s' \<in> set camel_names" "k = q' @ s'"
    using spec_as_dict_key by meson
  with assms(2) show False using wire_key_prefix[of q s q' s'] by simp
qed

lemma spec_as_dict_fixed_key:
  assumes "k \<in> set [''Command'', ''DomainName'', ''Years'']"
  shows "map_of (spec_as_dict q x) k = None"
proof (rule ccontr)
  assume "map_of (spec_as_dict q x) k \<noteq> None"
  then obtain v where "(k, v) \<in> set (spec_as_dict q x)" by (auto dest: map_of_SomeD)
  then obtain s where "s \<in> set camel_names" "k = q @ s" using spec_as_dict_key by blast
  with assms show False using fixed_key_not_wire by blast
qed

lemma spec_as_dict_lookup:
  "(k, v) \<in> set (spec_as_dict q x) \<Longrightarrow> map_of (spec_as_dict q x) k = Some v"
  using distinct_spec_as_dict by (rule map_of_is_SomeI)

lemma data_fields_u_prefix: "data_fields (x\<lparr>u_prefix := z\<rparr>) = data_fields x"
  by (simp add: data_fields_def)

lemma spec_as_dict_u_prefix: "spec_as_dict q (x\<lparr>u_prefix := z\<rparr>) = spec_as_dict q x"
  by (simp only: spec_as_dict_fields data_fields_u_prefix)

lemma set_prefix_contact:
  "contacts w r = Some c \<Longrightarrow>
   set_prefix (PObj r) p w = (Inr (), w\<lparr>contacts := (contacts w)(r \<mapsto> c\<lparr>u_prefix := PStr p\<rparr>)\<rparr>)"
  by (simp add: set_prefix_def)

lemma role_contact_supplied:
  "truthy (dict_get kwargs role) \<Longrightarrow>
   role_contact kwargs role p registrant w = (Inr (dict_get kwargs role), w)"
  by (simp add: role_contact_def return_io_def)

lemma role_contact_copied:
  "\<not> truthy (dict_get kwargs role) \<Longrightarrow> contacts w r = Some c \<Longrightarrow>
   role_contact kwargs role p (PObj r) w =
     (Inr (PObj (next_addr w)),
      w\<lparr>contacts := (contacts w)(next_addr w \<mapsto> c\<lparr>u_prefix := PStr p\<rparr>),
        next_addr := Suc (next_addr w)\<rparr>)"
  by (simp add: role_contact_def bind_io_def copy_contact_def set_prefix_def return_io_def)

lemma role_contact_step:
  assumes "contacts w1 r = Some cr" "r < next_addr w1"
      and "truthy (dict_get kwargs role) \<longrightarrow>
             (\<exists>a x. dict_get kwargs role = PObj a \<and> a < next_addr w1 \<and>
                    contacts w1 a = Some x \<and> u_prefix x = PStr q)"
  shows "\<exists>a x q' w2.
      role_contact kwargs role p (PObj r) w1 = (Inr (PObj a), w2) \<and>
      contacts w2 a = Some x \<and> u_prefix x = PStr q' \<and> a < next_addr w2 \<and>
      (truthy (dict_get kwargs role) \<longrightarrow> q' = q) \<and>
      (\<not> truthy (dict_get kwargs role) \<longrightarrow> q' = p \<and> data_fields x = data_fields cr) \<and>
      (\<forall>b<next_addr w1. contacts w2 b = contacts w1 b) \<and>
      next_addr w1 \<le> next_addr w2 \<and> dicts w2 = dicts w1 \<and> sent w2 = sent w1"
proof (cases "truthy (dict_get kwargs role)")
  case True
  with assms(3) obtain a x where "dict_get kwargs role = PObj a" "a < next_addr w1"
    "contacts w1 a = Some x" "u_prefix x = PStr q" by blast
  with True show ?thesis
    using role_contact_supplied[OF True, of p "PObj r" w1] by auto
next
  case False
  show ?thesis
    using False assms(1,2) role_contact_copied[OF False assms(1), of p]
    by (auto simp: data_fields_u_prefix)
qed

lemma call_as_dict_contact:
  assumes "contacts w a = Some x" "u_prefix x = PStr q"
  shows "\<exists>d. call_as_dict (PObj a) w = (Inr d, w) \<and> map_of d = map_of (spec_as_dict q x)"
  using as_dict_map[OF assms(2)] assms(1) by (auto simp: call_as_dict_def)

lemma spec_as_dict_data_fields:
  "data_fields x = data_fields y \<Longrightarrow> spec_as_dict q x = spec_as_dict q y"
  by (simp only: spec_as_dict_fields)

lemma supplied_contactD:
  assumes "supplied_contact w r v q"
  shows "\<exists>a x. v = PObj a \<and> a \<noteq> r \<and> a < next_addr w \<and> contacts w a = Some x \<and>
               u_prefix x = PStr q"
  using assms by (cases v) (auto simp: supplied_contact_def split: option.splits)

lemma map_add_None: "n k = None \<Longrightarrow> (m ++ n) k = m k"
  by (simp add: map_add_def)

lemma map_add_Some: "n k = Some v \<Longrightarrow> (m ++ n) k = Some v"
  by (simp add: map_add_def)

text \<open>
  What \<^verbatim>\<open>domains_create\<close> assembles when the prefixes do not collide. The registrant is a
  contact in the store, and each contact given for \<^verbatim>\<open>admin\<close>, \<^verbatim>\<open>tech\<close> or
  \<^verbatim>\<open>aux_billing\<close> is another contact whose prefix is neither \<^verbatim>\<open>Registrant\<close> nor the
  prefix of an earlier role that was not given. Then the parameters hold \<^verbatim>\<open>Command\<close>,
  \<^verbatim>\<open>DomainName\<close>, \<^verbatim>\<open>Years\<close> (1 by default), the registrant's fields under
  \<^verbatim>\<open>Registrant\<close>, and for each role not given the registrant's fields under the prefix
  of that role; the registrant object changes in its prefix only, no other contact that
  existed before changes, and these parameters are what is passed to \<^verbatim>\<open>request\<close>.
\<close>

lemma domains_create_parameters:
  assumes reg: "map_of kwargs ''registrant'' = Some (PObj r)" "contacts w r = Some c"
               "r < next_addr w"
      and admin: "truthy (dict_get kwargs ''admin'') \<longrightarrow>
                    supplied_contact w r (dict_get kwargs ''admin'') qa \<and> qa \<noteq> ''Registrant''"
      and tech: "truthy (dict_get kwargs ''tech'') \<longrightarrow>
                    supplied_contact w r (dict_get kwargs ''tech'') qt \<and> qt \<noteq> ''Registrant'' \<and>
                    (\<not> truthy (dict_get kwargs ''admin'') \<longrightarrow> qt \<noteq> ''Admin'')"
      and aux: "truthy (dict_get kwargs ''aux_billing'') \<longrightarrow>
                    supplied_contact w r (dict_get kwargs ''aux_billing'') qx \<and>
                    qx \<noteq> ''Registrant'' \<and>
                    (\<not> truthy (dict_get kwargs ''admin'') \<longrightarrow> qx \<noteq> ''Admin'') \<and>
                    (\<not> truthy (dict_get kwargs ''tech'') \<longrightarrow> qx \<noteq> ''Tech'')"
  shows "\<exists>opts w'.
      domains_create_opts domain_name kwargs w = (Inr opts, w') \<and>
      domains_create ev self domain_name kwargs w = request ev self opts w' \<and>
      map_of opts ''Command'' = Some (PStr ''namecheap.domains.create'') \<and>
      map_of opts ''DomainName'' = Some domain_name \<and>
      map_of opts ''Years'' = Some (dict_get_default kwargs ''years'' (PInt 1)) \<and>
      (\<forall>(k, v)\<in>set (spec_as_dict ''Registrant'' c). map_of opts k = Some v) \<and>
      (\<not> truthy (dict_get kwargs ''admin'') \<longrightarrow>
         (\<forall>(k, v)\<in>set (spec_as_dict ''Admin'' c). map_of opts k = Some v)) \<and>
      (\<not> truthy (dict_get kwargs ''tech'') \<longrightarrow>
         (\<forall>(k, v)\<in>set (spec_as_dict ''Tech'' c). map_of opts k = Some v)) \<and>
      (\<not> truthy (dict_get kwargs ''aux_billing'') \<longrightarrow>
         (\<forall>(k, v)\<in>set (spec_as_dict ''AuxBilling'' c). map_of opts k = Some v)) \<and>
      contacts w' r = Some (c\<lparr>u_prefix := PStr ''Registrant''\<rparr>) \<and>
      (\<forall>a<next_addr w. a \<noteq> r \<longrightarrow> contacts w' a = contacts w a) \<and>
      dicts w' = dicts w \<and> sent w' = sent w"
proof -
  define cr where "cr = c\<lparr>u_prefix := PStr ''Registrant''\<rparr>"
  define w1 where "w1 = w\<lparr>contacts := (contacts w)(r \<mapsto> cr)\<rparr>"
  have s0: "set_prefix (PObj r) ''Registrant'' w = (Inr (), w1)"
    by (simp add: set_prefix_contact[OF reg(2)] w1_def cr_def)
  have w1: "contacts w1 r = Some cr" "r < next_addr w1" "next_addr w1 = next_addr w"
    "dicts w1 = dicts w" "sent w1 = sent w" "\<And>b. b \<noteq> r \<Longrightarrow> contacts w1 b = contacts w b"
    using reg(3) by (simp_all add: w1_def)
  have fc: "data_fields cr = data_fields c"
    by (simp add: cr_def data_fields_u_prefix)
  \<comment> \<open>admin\<close>
  have ha: "truthy (dict_get kwargs ''admin'') \<longrightarrow>
             (\<exists>a x. dict_get kwargs ''admin'' = PObj a \<and> a < next_addr w1 \<and>
                    contacts w1 a = Some x \<and> u_prefix x = PStr qa)"
    using admin w1(3,6) by (auto dest!: supplied_contactD)
  from role_contact_step[OF w1(1,2) ha, of "''Admin''"]
  obtain aA xA qA w2 where A:
    "role_contact kwargs ''admin'' ''Admin'' (PObj r) w1 = (Inr (PObj aA), w2)"
    "contacts w2 aA = Some xA" "u_prefix xA = PStr qA" "aA < next_addr w2"
    "truthy (dict_get kwargs ''admin'') \<longrightarrow> qA = qa"
    "\<not> truthy (dict_get kwargs ''admin'') \<longrightarrow> qA = ''Admin'' \<and> data_fields xA = data_fields cr"
    "\<forall>b<next_addr w1. contacts w2 b = contacts w1 b"
    "next_addr w1 \<le> next_addr w2" "dicts w2 = dicts w1" "sent w2 = sent w1"
    by blast
  have w2: "contacts w2 r = Some cr" "r < next_addr w2"
    using A(7,8) w1(1,2) by auto
  \<comment> \<open>tech\<close>
  have ht: "truthy (dict_get kwargs ''tech'') \<longrightarrow>
             (\<exists>a x. dict_get kwargs ''tech'' = PObj a \<and> a < next_addr w2 \<and>
                    contacts w2 a = Some x \<and> u_prefix x = PStr qt)"
  proof
    assume "truthy (dict_get kwargs ''tech'')"
    with tech obtain a x where a: "dict_get kwargs ''tech'' = PObj a" "a \<noteq> r" "a < next_addr w"
      "contacts w a = Some x" "u_prefix x = PStr qt"
      by (auto dest!: supplied_contactD)
    then have "a < next_addr w2" "contacts w2 a = Some x"
      using A(7,8) w1(3,6) by auto
    with a show "\<exists>a x. dict_get kwargs ''tech'' = PObj a \<and> a < next_addr w2 \<and>
                    contacts w2 a = Some x \<and> u_prefix x = PStr qt" by blast
  qed
  from role_contact_step[OF w2 ht, of "''Tech''"]
  obtain aT xT qT w3 where T:
    "role_contact kwargs ''tech'' ''Tech'' (PObj r) w2 = (Inr (PObj aT), w3)"
    "contacts w3 aT = Some xT" "u_prefix xT = PStr qT" "aT < next_addr w3"
    "truthy (dict_get kwargs ''tech'') \<longrightarrow> qT = qt"
    "\<not> truthy (dict_get kwargs ''tech'') \<longrightarrow> qT = ''Tech'' \<and> data_fields xT = data_fields cr"
    "\<forall>b<next_addr w2. contacts w3 b = contacts w2 b"
    "next_addr w2 \<le> next_addr w3" "dicts w3 = dicts w2" "sent w3 = sent w2"
    by blast
  have w3: "contacts w3 r = Some cr" "r < next_addr w3" "contacts w3 aA = Some xA"
    "aA < next_addr w3"
    using T(7,8) w2 A(2,4) by auto
  \<comment> \<open>aux\_billing\<close>
  have hx: "truthy (dict_get kwargs ''aux_billing'') \<longrightarrow>
             (\<exists>a x. dict_get kwargs ''aux_billing'' = PObj a \<and> a < next_addr w3 \<and>
                    contacts w3 a = Some x \<and> u_prefix x = PStr qx)"
  proof
    assume "truthy (dict_get kwargs ''aux_billing'')"
    with aux obtain a x where a: "dict_get kwargs ''aux_billing'' = PObj a" "a \<noteq> r"
      "a < next_addr w" "contacts w a = Some x" "u_prefix x = PStr qx"
      by (auto dest!: supplied_contactD)
    then have "a < next_addr w3" "contacts w3 a = Some x"
      using A(7,8) T(7,8) w1(3,6) by auto
    with a show "\<exists>a x. dict_get kwargs ''aux_billing'' = PObj a \<and> a < next_addr w3 \<and>
                    contacts w3 a = Some x \<and> u_prefix x = PStr qx" by blast
  qed
  from role_contact_step[OF w3(1,2) hx, of "''AuxBilling''"]
  obtain aX xX qX w4 where X:
    "role_contact kwargs ''aux_billing'' ''AuxBilling'' (PObj r) w3 = (Inr (PObj aX), w4)"
    "contacts w4 aX = Some xX" "u_prefix xX = PStr qX" "aX < next_addr w4"
    "truthy (dict_get kwargs ''aux_billing'') \<longrightarrow> qX = qx"
    "\<not> truthy (dict_get kwargs ''aux_billing'') \<longrightarrow>
       qX = ''AuxBilling'' \<and> data_fields xX = data_fields cr"
    "\<forall>b<next_addr w3. contacts w4 b = contacts w3 b"
    "next_addr w3 \<le> next_addr w4" "dicts w4 = dicts w3" "sent w4 = sent w3"
    by blast
  have w4: "contacts w4 r = Some cr" "contacts w4 aA = Some xA" "contacts w4 aT = Some xT"
    using X(7) w3 T(2,4) by auto
  have pr: "u_prefix cr = PStr ''Registrant''" by (simp add: cr_def)
  from call_as_dict_contact[OF w4(1) pr] obtain dR where dR:
    "call_as_dict (PObj r) w4 = (Inr dR, w4)" "map_of dR = map_of (spec_as_dict ''Registrant'' cr)"
    by blast
  from call_as_dict_contact[OF w4(2) A(3)] obtain dA where dA:
    "call_as_dict (PObj aA) w4 = (Inr dA, w4)" "map_of dA = map_of (spec_as_dict qA xA)"
    by blast
  from call_as_dict_contact[OF w4(3) T(3)] obtain dT where dT:
    "call_as_dict (PObj aT) w4 = (Inr dT, w4)" "map_of dT = map_of (spec_as_dict qT xT)"
    by blast
  from call_as_dict_contact[OF X(2,3)] obtain dX where dX:
    "call_as_dict (PObj aX) w4 = (Inr dX, w4)" "map_of dX = map_of (spec_as_dict qX xX)"
    by blast
  let ?base = "[(''Command'', PStr ''namecheap.domains.create''), (''DomainName'', domain_name),
                (''Years'', dict_get_default kwargs ''years'' (PInt 1))]"
  define opts where
    "opts = dict_update (dict_update (dict_update (dict_update ?base dR) dA) dT) dX"
  have run: "domains_create_opts domain_name kwargs w = (Inr opts, w4)"
    by (simp add: domains_create_opts_def bind_io_def lift_io_def return_io_def
        dict_item_Some[OF reg(1)] s0 A(1) T(1) X(1) dR(1) dA(1) dT(1) dX(1) opts_def)
  have m: "map_of opts = map_of ?base ++ map_of (spec_as_dict ''Registrant'' c)
      ++ map_of (spec_as_dict qA xA) ++ map_of (spec_as_dict qT xT)
      ++ map_of (spec_as_dict qX xX)"
    by (simp only: opts_def map_of_dict_update dR(2) dA(2) dT(2) dX(2)
        spec_as_dict_data_fields[OF fc])
  \<comment> \<open>the prefixes of the contacts merged after the registrant\<close>
  have qA: "qA \<noteq> ''Registrant''" using A(5,6) admin by auto
  have qT: "qT \<noteq> ''Registrant''" using T(5,6) tech by auto
  have qX: "qX \<noteq> ''Registrant''" using X(5,6) aux by auto
  have qTA: "\<not> truthy (dict_get kwargs ''admin'') \<Longrightarrow> qT \<noteq> ''Admin''"
    using T(5,6) tech by auto
  have qXA: "\<not> truthy (dict_get kwargs ''admin'') \<Longrightarrow> qX \<noteq> ''Admin''"
    using X(5,6) aux by auto
  have qXT: "\<not> truthy (dict_get kwargs ''tech'') \<Longrightarrow> qX \<noteq> ''Tech''"
    using X(5,6) aux by auto
  have fixed: "map_of opts k = map_of ?base k"
    if "k \<in> set [''Command'', ''DomainName'', ''Years'']" for k
    unfolding m using spec_as_dict_fixed_key[OF that] by (simp only: map_add_None)
  have g1: "map_of opts ''Command'' = Some (PStr ''namecheap.domains.create'')"
           "map_of opts ''DomainName'' = Some domain_name"
           "map_of opts ''Years'' = Some (dict_get_default kwargs ''years'' (PInt 1))"
    by (simp_all add: fixed)
  have g2: "\<forall>(k, v)\<in>set (spec_as_dict ''Registrant'' c). map_of opts k = Some v"
  proof (clarify)
    fix k v assume kv: "(k, v) \<in> set (spec_as_dict ''Registrant'' c)"
    show "map_of opts k = Some v"
      unfolding m
      using spec_as_dict_other_prefix[OF kv qA] spec_as_dict_other_prefix[OF kv qT]
        spec_as_dict_other_prefix[OF kv qX] spec_as_dict_lookup[OF kv]
      by (simp only: map_add_None map_add_Some)
  qed
  have g3: "\<forall>(k, v)\<in>set (spec_as_dict ''Admin'' c). map_of opts k = Some v"
    if na: "\<not> truthy (dict_get kwargs ''admin'')"
  proof (clarify)
    fix k v assume kv: "(k, v) \<in> set (spec_as_dict ''Admin'' c)"
    from na A(6) fc have e: "spec_as_dict qA xA = spec_as_dict ''Admin'' c"
      by (simp add: spec_as_dict_data_fields[of xA c])
    show "map_of opts k = Some v"
      unfolding m e
      using spec_as_dict_other_prefix[OF kv qTA[OF na]] spec_as_dict_other_prefix[OF kv qXA[OF na]]
        spec_as_dict_lookup[OF kv]
      by (simp only: map_add_None map_add_Some)
  qed
  have g4: "\<forall>(k, v)\<in>set (spec_as_dict ''Tech'' c). map_of opts k = Some v"
    if nt: "\<not> truthy (dict_get kwargs ''tech'')"
  proof (clarify)
    fix k v assume kv: "(k, v) \<in> set (spec_as_dict ''Tech'' c)"
    from nt T(6) fc have e: "spec_as_dict qT xT = spec_as_dict ''Tech'' c"
      by (simp add: spec_as_dict_data_fields[of xT c])
    show "map_of opts k = Some v"
      unfolding m e
      using spec_as_dict_other_prefix[OF kv qXT[OF nt]] spec_as_dict_lookup[OF kv]
      by (simp only: map_add_None map_add_Some)
  qed
  have g5: "\<forall>(k, v)\<in>set (spec_as_dict ''AuxBilling'' c). map_of opts k = Some v"
    if nx: "\<not> truthy (dict_get kwargs ''aux_billing'')"
  proof (clarify)
    fix k v assume kv: "(k, v) \<in> set (spec_as_dict ''AuxBilling'' c)"
    from nx X(6) fc have e: "spec_as_dict qX xX = spec_as_dict ''AuxBilling'' c"
      by (simp add: spec_as_dict_data_fields[of xX c])
    show "map_of opts k = Some v"
      unfolding m e using spec_as_dict_lookup[OF kv] by (simp only: map_add_Some)
  qed
  have frame: "\<forall>a<next_addr w. a \<noteq> r \<longrightarrow> contacts w4 a = contacts w a"
    using A(7,8) T(7,8) X(7) w1(3,6) by auto
  have st: "dicts w4 = dicts w" "sent w4 = sent w"
    using A(9,10) T(9,10) X(9,10) w1(4,5) by simp_all
  have dc: "domains_create ev self domain_name kwargs w = request ev self opts w4"
    by (simp add: domains_create_def bind_io_def run)
  show ?thesis
    using run dc g1 g2 g3 g4 g5 w4(1) frame st unfolding cr_def by blast
qed

lemma john_doe_wire:
  "(''RegistrantFirstName'', PStr ''John'') \<in> set (spec_as_dict ''Registrant'' (john_doe_contact (PStr [])))"
  "(''AdminFirstName'', PStr ''John'') \<in> set (spec_as_dict ''Admin'' (john_doe_contact (PStr [])))"
  "(''TechFirstName'', PStr ''John'') \<in> set (spec_as_dict ''Tech'' (john_doe_contact (PStr [])))"
  "(''AuxBillingFirstName'', PStr ''John'') \<in> set (spec_as_dict ''AuxBilling'' (john_doe_contact (PStr [])))"
  by code_simp+

text \<open>
  Two such calls: one gives \<^verbatim>\<open>tech\<close> and \<^verbatim>\<open>years\<close>, the other gives the same contact as
  \<^verbatim>\<open>admin\<close> and \<^verbatim>\<open>aux_billing\<close>.
\<close>

lemma domains_create_parameters_example:
  "(\<exists>opts w'.
      domains_create_opts (PStr ''example.com'')
        [(''registrant'', PObj 1), (''tech'', PObj 2), (''years'', PInt 2)]
        (contacts_world (PStr ''Tech'')) = (Inr opts, w') \<and>
      map_of opts ''Command'' = Some (PStr ''namecheap.domains.create'') \<and>
      map_of opts ''DomainName'' = Some (PStr ''example.com'') \<and>
      map_of opts ''Years'' = Some (PInt 2) \<and>
      map_of opts ''RegistrantFirstName'' = Some (PStr ''John'') \<and>
      map_of opts ''AdminFirstName'' = Some (PStr ''John'') \<and>
      map_of opts ''AuxBillingFirstName'' = Some (PStr ''John'') \<and>
      contacts w' 1 = Some (john_doe_contact (PStr ''Registrant'')) \<and>
      contacts w' 2 = Some (eve_contact (PStr ''Tech''))) \<and>
   (\<exists>opts w'.
      domains_create_opts (PStr ''example.com'')
        [(''registrant'', PObj 1), (''admin'', PObj 2), (''aux_billing'', PObj 2)]
        (contacts_world (PStr ''Other'')) = (Inr opts, w') \<and>
      map_of opts ''Years'' = Some (PInt 1) \<and>
      map_of opts ''RegistrantFirstName'' = Some (PStr ''John'') \<and>
      map_of opts ''TechFirstName'' = Some (PStr ''John''))"
proof -
  let ?kw1 = "[(''registrant'', PObj 1), (''tech'', PObj 2), (''years'', PInt 2)]"
  let ?kw2 = "[(''registrant'', PObj 1), (''admin'', PObj 2), (''aux_billing'', PObj 2)]"
  let ?w1 = "contacts_world (PStr ''Tech'')"
  let ?w2 = "contacts_world (PStr ''Other'')"
  let ?c = "john_doe_contact (PStr [])"
  have c: "?c\<lparr>u_prefix := PStr ''Registrant''\<rparr> = john_doe_contact (PStr ''Registrant'')"
    by (simp add: john_doe_contact_def)
  have r1: "map_of ?kw1 ''registrant'' = Some (PObj 1)" "contacts ?w1 1 = Some ?c"
    "1 < next_addr ?w1"
    by (simp_all add: contacts_world_def)
  have a1: "truthy (dict_get ?kw1 ''admin'') \<longrightarrow>
      supplied_contact ?w1 1 (dict_get ?kw1 ''admin'') [] \<and> [] \<noteq> ''Registrant''"
    by (simp add: dict_get_def)
  have t1: "truthy (dict_get ?kw1 ''tech'') \<longrightarrow>
      supplied_contact ?w1 1 (dict_get ?kw1 ''tech'') ''Tech'' \<and> ''Tech'' \<noteq> ''Registrant'' \<and>
      (\<not> truthy (dict_get ?kw1 ''admin'') \<longrightarrow> ''Tech'' \<noteq> ''Admin'')"
    by (simp add: dict_get_def supplied_contact_def contacts_world_def eve_contact_def)
  have x1: "truthy (dict_get ?kw1 ''aux_billing'') \<longrightarrow>
      supplied_contact ?w1 1 (dict_get ?kw1 ''aux_billing'') [] \<and> [] \<noteq> ''Registrant'' \<and>
      (\<not> truthy (dict_get ?kw1 ''admin'') \<longrightarrow> [] \<noteq> ''Admin'') \<and>
      (\<not> truthy (dict_get ?kw1 ''tech'') \<longrightarrow> [] \<noteq> ''Tech'')"
    by (simp add: dict_get_def)
  have n1: "\<not> truthy (dict_get ?kw1 ''admin'')" "\<not> truthy (dict_get ?kw1 ''aux_billing'')"
    "dict_get_default ?kw1 ''years'' (PInt 1) = PInt 2"
    "contacts ?w1 2 = Some (eve_contact (PStr ''Tech''))" "(2::nat) < next_addr ?w1"
    by (simp_all add: dict_get_def dict_get_default_def contacts_world_def)
  have 1: "\<exists>opts w'.
      domains_create_opts (PStr ''example.com'') ?kw1 ?w1 = (Inr opts, w') \<and>
      map_of opts ''Command'' = Some (PStr ''namecheap.domains.create'') \<and>
      map_of opts ''DomainName'' = Some (PStr ''example.com'') \<and>
      map_of opts ''Years'' = Some (PInt 2) \<and>
      map_of opts ''RegistrantFirstName'' = Some (PStr ''John'') \<and>
      map_of opts ''AdminFirstName'' = Some (PStr ''John'') \<and>
      map_of opts ''AuxBillingFirstName'' = Some (PStr ''John'') \<and>
      contacts w' 1 = Some (john_doe_contact (PStr ''Registrant'')) \<and>
      contacts w' 2 = Some (eve_contact (PStr ''Tech''))"
    using domains_create_parameters[OF r1 a1 t1 x1, of "PStr ''example.com''"]
      n1 john_doe_wire unfolding c by fastforce
  have r2: "map_of ?kw2 ''registrant'' = Some (PObj 1)" "contacts ?w2 1 = Some ?c"
    "1 < next_addr ?w2"
    by (simp_all add: contacts_world_def)
  have a2: "truthy (dict_get ?kw2 ''admin'') \<longrightarrow>
      supplied_contact ?w2 1 (dict_get ?kw2 ''admin'') ''Other'' \<and> ''Other'' \<noteq> ''Registrant''"
    by (simp add: dict_get_def supplied_contact_def contacts_world_def eve_contact_def)
  have t2: "truthy (dict_get ?kw2 ''tech'') \<longrightarrow>
      supplied_contact ?w2 1 (dict_get ?kw2 ''tech'') [] \<and> [] \<noteq> ''Registrant'' \<and>
      (\<not> truthy (dict_get ?kw2 ''admin'') \<longrightarrow> [] \<noteq> ''Admin'')"
    by (simp add: dict_get_def)
  have x2: "truthy (dict_get ?kw2 ''aux_billing'') \<longrightarrow>
      supplied_contact ?w2 1 (dict_get ?kw2 ''aux_billing'') ''Other'' \<and>
      ''Other'' \<noteq> ''Registrant'' \<and>
      (\<not> truthy (dict_get ?kw2 ''admin'') \<longrightarrow> ''Other'' \<noteq> ''Admin'') \<and>
      (\<not> truthy (dict_get ?kw2 ''tech'') \<longrightarrow> ''Other'' \<noteq> ''Tech'')"
    by (simp add: dict_get_def supplied_contact_def contacts_world_def eve_contact_def)
  have n2: "\<not> truthy (dict_get ?kw2 ''tech'')"
    "dict_get_default ?kw2 ''years'' (PInt 1) = PInt 1"
    by (simp_all add: dict_get_def dict_get_default_def)
  have 2: "\<exists>opts w'.
      domains_create_opts (PStr ''example.com'') ?kw2 ?w2 = (Inr opts, w') \<and>
      map_of opts ''Years'' = Some (PInt 1) \<and>
      map_of opts ''RegistrantFirstName'' = Some (PStr ''John'') \<and>
      map_of opts ''TechFirstName'' = Some (PStr ''John'')"
    using domains_create_parameters[OF r2 a2 t2 x2, of "PStr ''example.com''"]
      n2 john_doe_wire by fastforce
  from 1 2 show ?thesis by blast
qed

text \<open>
  Claim C7 at calls that give an \<^verbatim>\<open>admin\<close> contact whose prefix is \<^verbatim>\<open>Registrant\<close>.
  \<^verbatim>\<open>domains_create\<close> sets the prefix of the registrant and of the copies it makes, but
  leaves a contact it is given for a role under the prefix that contact carries. In the
  first call the \<^verbatim>\<open>admin\<close> contact was constructed with that prefix. In the second
  both contacts were constructed without a prefix, and the \<^verbatim>\<open>admin\<close> contact has the
  prefix from an earlier call in which it was the registrant. In both, the registrant is
  John Doe, and the entries under \<^verbatim>\<open>Registrant\<close> are those of Eve Roe: the registrant's
  fields are not in the parameters, and there is no entry under \<^verbatim>\<open>Admin\<close>.
\<close>

theorem domains_create_keeps_supplied_prefix:
  "contacts (contacts_world (PStr ''Registrant'')) 1 = Some (john_doe_contact (PStr [])) \<and>
   contacts (contacts_world (PStr ''Registrant'')) 2 = Some (eve_contact (PStr ''Registrant'')) \<and>
   fst (domains_create_opts (PStr ''example.com'')
          [(''registrant'', PObj 1), (''admin'', PObj 2)] (contacts_world (PStr ''Registrant'')))
     = Inr [(''Command'', PStr ''namecheap.domains.create''),
            (''DomainName'', PStr ''example.com''), (''Years'', PInt 1),
            (''RegistrantAddress1'', PStr ''2 Side St''),
            (''RegistrantCity'', PStr ''Orem''),
            (''RegistrantCountry'', PStr ''US''),
            (''RegistrantEmailAddress'', PStr ''eve@example.com''),
            (''RegistrantFirstName'', PStr ''Eve''),
            (''RegistrantLastName'', PStr ''Roe''),
            (''RegistrantPhone'', PStr ''+001.8015559''),
            (''RegistrantPostalCode'', PStr ''84057''),
            (''RegistrantStateProvince'', PStr ''UT''),
            (''RegistrantOrganizationName'', PStr ''Eve Ltd''),
            (''TechAddress1'', PStr ''1 Main St''),
            (''TechCity'', PStr ''Provo''), (''TechCountry'', PStr ''US''),
            (''TechEmailAddress'', PStr ''john@example.com''),
            (''TechFirstName'', PStr ''John''), (''TechLastName'', PStr ''Doe''),
            (''TechPhone'', PStr ''+001.8015551''),
            (''TechPostalCode'', PStr ''84601''),
            (''TechStateProvince'', PStr ''UT''),
            (''AuxBillingAddress1'', PStr ''1 Main St''),
            (''AuxBillingCity'', PStr ''Provo''),
            (''AuxBillingCountry'', PStr ''US''),
            (''AuxBillingEmailAddress'', PStr ''john@example.com''),
            (''AuxBillingFirstName'', PStr ''John''),
            (''AuxBillingLastName'', PStr ''Doe''),
            (''AuxBillingPhone'', PStr ''+001.8015551''),
            (''AuxBillingPostalCode'', PStr ''84601''),
            (''AuxBillingStateProvince'', PStr ''UT'')] \<and>
   contacts (contacts_world (PStr [])) 1 = Some (john_doe_contact (PStr [])) \<and>
   contacts (contacts_world (PStr [])) 2 = Some (eve_contact (PStr [])) \<and>
   fst (domains_create_opts (PStr ''second.com'')
          [(''registrant'', PObj 1), (''admin'', PObj 2)]
          (snd (domains_create_opts (PStr ''first.com'') [(''registrant'', PObj 2)]
                  (contacts_world (PStr [])))))
     = Inr [(''Command'', PStr ''namecheap.domains.create''),
            (''DomainName'', PStr ''second.com''), (''Years'', PInt 1),
            (''RegistrantAddress1'', PStr ''2 Side St''),
            (''RegistrantCity'', PStr ''Orem''),
            (''RegistrantCountry'', PStr ''US''),
            (''RegistrantEmailAddress'', PStr ''eve@example.com''),
            (''RegistrantFirstName'', PStr ''Eve''),
            (''RegistrantLastName'', PStr ''Roe''),
            (''RegistrantPhone'', PStr ''+001.8015559''),
            (''RegistrantPostalCode'', PStr ''84057''),
            (''RegistrantStateProvince'', PStr ''UT''),
            (''RegistrantOrganizationName'', PStr ''Eve Ltd''),
            (''TechAddress1'', PStr ''1 Main St''),
            (''TechCity'', PStr ''Provo''), (''TechCountry'', PStr ''US''),
            (''TechEmailAddress'', PStr ''john@example.com''),
            (''TechFirstName'', PStr ''John''), (''TechLastName'', PStr ''Doe''),
            (''TechPhone'', PStr ''+001.8015551''),
            (''TechPostalCode'', PStr ''84601''),
            (''TechStateProvince'', PStr ''UT''),
            (''AuxBillingAddress1'', PStr ''1 Main St''),
            (''AuxBillingCity'', PStr ''Provo''),
            (''AuxBillingCountry'', PStr ''US''),
            (''AuxBillingEmailAddress'', PStr ''john@example.com''),
            (''AuxBillingFirstName'', PStr ''John''),
            (''AuxBillingLastName'', PStr ''Doe''),
            (''AuxBillingPhone'', PStr ''+001.8015551''),
            (''AuxBillingPostalCode'', PStr ''84601''),
            (''AuxBillingStateProvince'', PStr ''UT'')]"
  by code_simp

text \<open>
  Read from the parameters of the second call: the first name under \<^verbatim>\<open>Registrant\<close> is
  Eve, and the key \<^verbatim>\<open>AdminFirstName\<close> is missing.
\<close>

theorem domains_create_keeps_supplied_prefix_witness:
  "bind_err
     (fst (domains_create_opts (PStr ''second.com'')
             [(''registrant'', PObj 1), (''admin'', PObj 2)]
             (snd (domains_create_opts (PStr ''first.com'') [(''registrant'', PObj 2)]
                     (contacts_world (PStr []))))))
     (\<lambda>opts. dict_item opts ''RegistrantFirstName'') = Inr (PStr ''Eve'') \<and>
   bind_err
     (fst (domains_create_opts (PStr ''second.com'')
             [(''registrant'', PObj 1), (''admin'', PObj 2)]
             (snd (domains_create_opts (PStr ''first.com'') [(''registrant'', PObj 2)]
                     (contacts_world (PStr []))))))
     (\<lambda>opts. dict_item opts ''AdminFirstName'') = Inl (KeyError (PStr ''AdminFirstName'')) \<and>
   first_name (john_doe_contact (PStr [])) = PStr ''John''"
  using domains_create_keeps_supplied_prefix
  by (simp add: bind_err_def dict_item_def john_doe_contact_def)

section \<open>Properties of domains\_get\_list\<close>

lemma build_domains_Cons:
  "build_domains ev cl (d # ds) =
    (case bind_err (iteritems d) (\<lambda>kvs. new_Domain ev cl (strip_keys [] kvs)) of
       Inl e \<Rightarrow> Inl e
     | Inr x \<Rightarrow> (case build_domains ev cl ds of Inl e \<Rightarrow> Inl e | Inr xs \<Rightarrow> Inr (x # xs)))"
  by (simp add: bind_err_def split: sum.splits)

lemma build_domains_sound:
  "build_domains ev cl ds = Inr xs \<Longrightarrow>
   list_all2 (\<lambda>d x. bind_err (iteritems d) (\<lambda>kvs. new_Domain ev cl (strip_keys [] kvs)) = Inr x)
     ds xs"
proof (induction ds arbitrary: xs)
  case Nil
  then show ?case by simp
next
  case (Cons d ds)
  let ?item = "bind_err (iteritems d) (\<lambda>kvs. new_Domain ev cl (strip_keys [] kvs))"
  from Cons.prems obtain x where x: "?item = Inr x"
    unfolding build_domains_Cons by (cases ?item) simp_all
  from Cons.prems obtain ys where ys: "build_domains ev cl ds = Inr ys"
    unfolding build_domains_Cons x by (cases "build_domains ev cl ds") simp_all
  from Cons.prems have "xs = x # ys"
    unfolding build_domains_Cons x ys by simp
  with x Cons.IH[OF ys] show ?case by simp
qed

lemma build_domains_complete:
  "list_all2 (\<lambda>d x. bind_err (iteritems d) (\<lambda>kvs. new_Domain ev cl (strip_keys [] kvs)) = Inr x)
     ds xs \<Longrightarrow>
   build_domains ev cl ds = Inr xs"
proof (induction ds xs rule: list_all2_induct)
  case Nil
  then show ?case by simp
next
  case (Cons d x ds xs)
  then show ?case unfolding build_domains_Cons by simp
qed

lemma Domain_init_fields:
  assumes "Domain_init ev cl kwargs = Inr d"
  shows "strptime_date ev (dict_get kwargs ''Created'') ''%m/%d/%Y'' = Inr (created d) \<and>
         strptime_date ev (dict_get kwargs ''Expires'') ''%m/%d/%Y'' = Inr (expires d) \<and>
         py_int ev (dict_get kwargs ''ID'') = Inr (domain_id d) \<and>
         is_expired d = (dict_get kwargs ''IsExpired'' = PStr ''true'') \<and>
         is_locked d = (dict_get kwargs ''IsLocked'' = PStr ''true'') \<and>
         name d = dict_get kwargs ''Name'' \<and> user d = dict_get kwargs ''User'' \<and>
         whois_guard d = dict_get kwargs ''WhoisGuard'' \<and>
         auto_renew d = dict_get kwargs ''AutoRenew'' \<and>
         original_dict d = kwargs \<and> client d = cl"
  using assms
  by (auto simp: Domain_init_def bind_err_def split: sum.splits)

lemma find_append_cases:
  "find P (xs @ ys) = (case find P xs of Some x \<Rightarrow> Some x | None \<Rightarrow> find P ys)"
  by (induction xs) auto

lemma map_of_strip_keys:
  "map_of (strip_keys d kvs) k =
    (case find (\<lambda>kv. drop 1 (fst kv) = k) (rev kvs) of
       Some kv \<Rightarrow> Some (snd kv)
     | None \<Rightarrow> map_of d k)"
proof (induction kvs arbitrary: d)
  case Nil
  then show ?case by simp
next
  case (Cons kv kvs)
  obtain k' v' where kv: "kv = (k', v')" by (cases kv)
  show ?case
    by (simp add: kv Cons.IH find_append_cases map_of_dict_set split: option.splits)
qed

lemma domains_from_doc_list:
  assumes "subscript doc ''ApiResponse'' = Inr api_response"
      and "subscript api_response ''CommandResponse'' = Inr command_response"
      and "subscript command_response ''DomainGetListResult'' = Inr result"
      and "subscript result ''Domain'' = Inr (PList ds)"
  shows "domains_from_doc ev self doc = build_domains ev self ds"
  by (simp add: domains_from_doc_def assms bind_err_Inr)

lemma sample_parse_one: "xml_parse (sample_env body) one_domain_xml = Inr one_domain_doc"
  by (simp add: sample_env_def sample_parse_def one_domain_xml_def two_domains_xml_def
      error_xml_def)

lemma one_domain_doc_fails: "domains_of_doc ev self one_domain_doc = Inl AttributeError"
  by (simp add: domains_of_doc_def check_errors_def domains_from_doc_def one_domain_doc_def
      list_doc_def domain_a_def dict_item_def bind_err_Inr bind_err_Inl)

text \<open>
  Claim C6 at a response with exactly one \<^verbatim>\<open>Domain\<close> element. \<^verbatim>\<open>xmltodict\<close> gives the
  only child of its name as the child itself, so \<^verbatim>\<open>result['Domain']\<close> is the dictionary of
  that element and not a list; the loop then runs over the keys of the dictionary, which
  are strings, and \<^verbatim>\<open>iteritems\<close> on the first of them raises \<^verbatim>\<open>AttributeError\<close>. No list
  of one record is returned.
\<close>

theorem domains_get_list_single_domain:
  "domains_of_doc ev self one_domain_doc = Inl AttributeError \<and>
   (common_get_list_kw ev self (PStr ''namecheap.domains.getList'') kwargs w = (Inr r, w') \<and>
    xml_parse ev (response_text r) = Inr one_domain_doc \<longrightarrow>
      domains_get_list ev self kwargs w = (Inl AttributeError, w'))"
  by (simp add: domains_get_list_def bind_io_def lift_io_def bind_err_Inr one_domain_doc_fails)

text \<open>
  The sample response with one domain makes \<^verbatim>\<open>domains_get_list\<close> raise; the sample
  response with two domains yields the two records.
\<close>

theorem domains_get_list_single_domain_witness:
  "fst (domains_get_list (sample_env one_domain_xml) sample_client [] sample_world)
     = Inl AttributeError \<and>
   domains_of_doc (sample_env two_domains_xml) sample_client two_domains_doc
     = Inr [\<lparr> client = sample_client,
              original_dict =
                [(''ID'', PStr ''127''), (''Name'', PStr ''a.com''), (''User'', PStr ''owner''),
                 (''Created'', PStr ''02/15/2016''), (''Expires'', PStr ''02/15/2022''),
                 (''IsExpired'', PStr ''false''), (''IsLocked'', PStr ''true''),
                 (''AutoRenew'', PStr ''false''), (''WhoisGuard'', PStr ''ENABLED'')],
              auto_renew = PStr ''false'',
              created = \<lparr>year = 2016, month = 2, day = 15\<rparr>,
              expires = \<lparr>year = 2022, month = 2, day = 15\<rparr>,
              domain_id = 127, is_expired = False, is_locked = True,
              name = PStr ''a.com'', user = PStr ''owner'', whois_guard = PStr ''ENABLED'' \<rparr>,
            \<lparr> client = sample_client,
              original_dict =
                [(''ID'', PStr ''381''), (''Name'', PStr ''b.org''), (''User'', PStr ''owner''),
                 (''Created'', PStr ''04/28/2016''), (''Expires'', PStr ''04/28/2023''),
                 (''IsExpired'', PStr ''true''), (''IsLocked'', PStr ''false''),
                 (''AutoRenew'', PStr ''true''), (''WhoisGuard'', PStr ''NOTPRESENT'')],
              auto_renew = PStr ''true'',
              created = \<lparr>year = 2016, month = 4, day = 28\<rparr>,
              expires = \<lparr>year = 2023, month = 4, day = 28\<rparr>,
              domain_id = 381, is_expired = True, is_locked = False,
              name = PStr ''b.org'', user = PStr ''owner'', whois_guard = PStr ''NOTPRESENT'' \<rparr>]"
proof -
  let ?ev = "sample_env one_domain_xml"
  let ?cmd = "PStr ''namecheap.domains.getList''"
  obtain w1 where c: "common_get_list_kw ?ev sample_client ?cmd [] sample_world
      = (Inr (Response one_domain_xml), w1)"
    using sample_common_get_list_kw[of one_domain_xml ?cmd] by (metis prod.collapse)
  have p: "xml_parse ?ev (response_text (Response one_domain_xml)) = Inr one_domain_doc"
    by (simp add: sample_parse_one)
  have 1: "fst (domains_get_list ?ev sample_client [] sample_world) = Inl AttributeError"
    using domains_get_list_single_domain[where ev = ?ev and self = sample_client
        and kwargs = "[]" and w = sample_world and r = "Response one_domain_xml" and w' = w1]
      c p by simp
  have 2: "domains_of_doc (sample_env two_domains_xml) sample_client two_domains_doc = Inr
           [\<lparr> client = sample_client,
              original_dict =
                [(''ID'', PStr ''127''), (''Name'', PStr ''a.com''), (''User'', PStr ''owner''),
                 (''Created'', PStr ''02/15/2016''), (''Expires'', PStr ''02/15/2022''),
                 (''IsExpired'', PStr ''false''), (''IsLocked'', PStr ''true''),
                 (''AutoRenew'', PStr ''false''), (''WhoisGuard'', PStr ''ENABLED'')],
              auto_renew = PStr ''false'',
              created = \<lparr>year = 2016, month = 2, day = 15\<rparr>,
              expires = \<lparr>year = 2022, month = 2, day = 15\<rparr>,
              domain_id = 127, is_expired = False, is_locked = True,
              name = PStr ''a.com'', user = PStr ''owner'', whois_guard = PStr ''ENABLED'' \<rparr>,
            \<lparr> client = sample_client,
              original_dict =
                [(''ID'', PStr ''381''), (''Name'', PStr ''b.org''), (''User'', PStr ''owner''),
                 (''Created'', PStr ''04/28/2016''), (''Expires'', PStr ''04/28/2023''),
                 (''IsExpired'', PStr ''true''), (''IsLocked'', PStr ''false''),
                 (''AutoRenew'', PStr ''true''), (''WhoisGuard'', PStr ''NOTPRESENT'')],
              auto_renew = PStr ''true'',
              created = \<lparr>year = 2016, month = 4, day = 28\<rparr>,
              expires = \<lparr>year = 2023, month = 4, day = 28\<rparr>,
              domain_id = 381, is_expired = True, is_locked = False,
              name = PStr ''b.org'', user = PStr ''owner'', whois_guard = PStr ''NOTPRESENT'' \<rparr>]"
    by code_simp
  from 1 2 show ?thesis by blast
qed

end
